theory Spec2Isabelle
  imports Complex_Main
begin

section \<open>Errors, configuration and the training world\<close>

text \<open>
  The exceptions of the Python program are values: every function that can raise returns
  \<open>error + 'a\<close>, with \<open>Inl\<close> for the exception. No function of the sources catches an
  exception, so a raise ends the run; the result then is the exception alone, without the
  state the run had reached.
\<close>

datatype error =
    ZeroDivisionError | RuntimeError | ValueError | FileNotFoundError | StopIteration
  | SystemExit

text \<open>
  \<open>config/config.py\<close> is not among the sources; the attributes of \<open>cfg\<close> that
  \<open>main.py\<close> reads are the fields of this record (the device and the checkpoint path play
  no part in the control flow and are left out). Python integers are unbounded: \<open>int\<close>.
  A loss is a Python float. The floats are a type \<open>'f\<close> of their own, and the arithmetic
  on them is the library's (see \<open>lib\<close> below): nothing here takes a float for a real
  number, so rounding, infinities and NaN are whatever the library makes them.
\<close>

record 'f config =
  cfg_n_epochs :: int
  cfg_val_freq :: int
  cfg_print_freq :: int
  cfg_resume_from_epoch :: int
  cfg_min_val_loss :: 'f

text \<open>
  What a run can observe, in the order in which \<open>main.py\<close> does it. Each event stands for
  one call of the source and carries the variables in scope there:
  \<^item> \<open>TrainingEpoch epoch\<close>: line 32, the first statement of the epoch loop's body;
  \<^item> \<open>ModelCall training graph\<close>: a forward pass \<open>model(...)\<close> (lines 41, 81, 105), with
    \<open>model.training\<close> and whether autograd records the pass (grad mode enabled and the
    parameters requiring gradients);
  \<^item> \<open>ZeroGrad\<close>, \<open>Backward\<close>, \<open>OptimizerStep p o\<close>: lines 42 to 44; the step carries the
    parameters and the optimizer state it leaves;
  \<^item> \<open>Validation epoch\<close>: line 52, inside \<open>if epoch % cfg.val_freq == 0\<close>;
  \<^item> \<open>ValStart n\<close>: line 77, the progress bar of \<open>val\<close> over \<open>n\<close> batches;
  \<^item> \<open>ValidationLoss v\<close>: line 56;
  \<^item> \<open>SaveValModel p epoch o v\<close>: line 58, \<open>save_val_model(model, epoch, optimizer, val_loss)\<close>;
  \<^item> \<open>SkippedSaving\<close>: line 61;
  \<^item> \<open>SaveEndModel p o\<close>: line 63, \<open>save_end_model(model, optimizer)\<close>.
  \<open>utils/train_helpers.py\<close> is not among the sources: the two save calls are recorded
  with their arguments, and what they write is not modelled.
\<close>

datatype ('p, 'o, 'f) event =
    TrainingEpoch int
  | ModelCall bool bool
  | ZeroGrad
  | Backward
  | OptimizerStep 'p 'o
  | Validation int
  | ValStart nat
  | ValidationLoss 'f
  | SaveValModel 'p int 'o 'f
  | SkippedSaving
  | SaveEndModel 'p 'o

text \<open>
  The mutable state the functions of \<open>main.py\<close> share: the model's parameters
  (\<open>model.state_dict()\<close>), its mode (\<open>model.training\<close>), the optimizer's state, the
  accumulated gradients (the parameters' \<open>.grad\<close>), whether the parameters require
  gradients, the global grad mode of the tensor library (\<open>torch.is_grad_enabled()\<close>,
  which no line of the sources ever changes), and the events so far.
\<close>

record ('p, 'o, 'g, 'f) world =
  params :: 'p
  training :: bool
  opt_state :: 'o
  grads :: 'g
  requires_grad :: bool
  grad_enabled :: bool
  trace :: "('p, 'o, 'f) event list"

text \<open>
  The collaborators that \<open>config/architecture.py\<close> and the tensor library supply: the
  model's forward pass (a function of the parameters, the mode and the sample's image),
  the criterion (with \<open>loss.item()\<close>, a float), \<open>loss.backward()\<close> (which accumulates into
  the gradients), \<open>optimizer.zero_grad()\<close> and \<open>optimizer.step()\<close>, and the shape of a
  prediction; and Python's arithmetic on floats: the float of an integer (\<open>float(n)\<close>,
  which is what \<open>+\<close> and \<open>/\<close> make of an integer operand beside a float), \<open>+\<close>, \<open>/\<close> on
  a divisor that is not zero, and \<open><\<close>.
\<close>

record ('p, 'o, 'g, 'b, 'y, 'f) lib =
  model_call :: "'p \<Rightarrow> bool \<Rightarrow> 'b \<Rightarrow> 'y"
  criterion :: "'y \<Rightarrow> 'b \<Rightarrow> 'f"
  loss_backward :: "'p \<Rightarrow> bool \<Rightarrow> 'b \<Rightarrow> 'g \<Rightarrow> 'g"
  zero_grad :: "'g \<Rightarrow> 'g"
  optimizer_step :: "'o \<Rightarrow> 'p \<Rightarrow> 'g \<Rightarrow> 'p \<times> 'o"
  size_of :: "'y \<Rightarrow> nat list"
  float_of_int :: "int \<Rightarrow> 'f"
  float_add :: "'f \<Rightarrow> 'f \<Rightarrow> 'f"
  float_div :: "'f \<Rightarrow> 'f \<Rightarrow> 'f"
  float_less :: "'f \<Rightarrow> 'f \<Rightarrow> bool"

definition emit ::
  "('p, 'o, 'f) event \<Rightarrow> ('p, 'o, 'g, 'f) world \<Rightarrow> ('p, 'o, 'g, 'f) world" where
  "emit ev w = w\<lparr>trace := trace w @ [ev]\<rparr>"

definition records_graph :: "('p, 'o, 'g, 'f) world \<Rightarrow> bool" where
  "records_graph w = (grad_enabled w \<and> requires_grad w)"

section \<open>main.py: train, val, test\<close>

text \<open>
  Lines 39 to 46, one minibatch: forward pass and loss, \<open>optimizer.zero_grad()\<close>,
  \<open>loss.backward()\<close>, \<open>optimizer.step()\<close>. \<open>loss.backward()\<close> raises RuntimeError when the
  forward pass recorded no graph (grad mode disabled, or no parameter requires gradients).
  The result is the new world and \<open>loss.item()\<close>.
\<close>

definition train_step ::
  "('p, 'o, 'g, 'b, 'y, 'f) lib \<Rightarrow> ('p, 'o, 'g, 'f) world \<Rightarrow> 'b
     \<Rightarrow> error + (('p, 'o, 'g, 'f) world \<times> 'f)" where
  "train_step L w sample =
     (let y = model_call L (params w) (training w) sample;
          w1 = emit (ModelCall (training w) (records_graph w)) w;
          loss = criterion L y sample;
          w2 = emit ZeroGrad (w1\<lparr>grads := zero_grad L (grads w1)\<rparr>)
      in if \<not> records_graph w2 then Inl RuntimeError
         else
           let w3 = emit Backward
                      (w2\<lparr>grads := loss_backward L (params w2) (training w2) sample (grads w2)\<rparr>);
               (p', o') = optimizer_step L (opt_state w3) (params w3) (grads w3);
               w4 = emit (OptimizerStep p' o') (w3\<lparr>params := p', opt_state := o'\<rparr>)
           in Inr (w4, loss))"

text \<open>
  Lines 35 to 46, \<open>for steps, sample in enumerate(train_loader)\<close>. The progress bar is not
  modelled, but \<open>(steps + 1) % cfg.print_freq\<close> raises ZeroDivisionError when
  \<open>cfg.print_freq\<close> is 0, before the sample is used. \<open>running_loss += loss.item()\<close> is
  the library's addition of floats.
\<close>

fun train_batches ::
  "'f config \<Rightarrow> ('p, 'o, 'g, 'b, 'y, 'f) lib \<Rightarrow> nat \<Rightarrow> 'b list
     \<Rightarrow> ('p, 'o, 'g, 'f) world \<times> 'f \<Rightarrow> error + (('p, 'o, 'g, 'f) world \<times> 'f)" where
  "train_batches c L steps [] (w, running_loss) = Inr (w, running_loss)"
| "train_batches c L steps (sample # rest) (w, running_loss) =
     (if cfg_print_freq c = 0 then Inl ZeroDivisionError
      else case train_step L w sample of
             Inl e \<Rightarrow> Inl e
           | Inr (w', loss) \<Rightarrow>
               train_batches c L (Suc steps) rest (w', float_add L running_loss loss))"

text \<open>
  Lines 78 to 86 of \<open>val\<close>, \<open>for steps, sample in enumerate(val_loader)\<close>: forward pass,
  loss, \<open>val_loss += loss.item()\<close> (the library's addition of floats), and then
  \<open>steps % cfg.print_freq\<close>, which raises ZeroDivisionError when \<open>cfg.print_freq\<close> is 0.
  No \<open>torch.no_grad()\<close> surrounds the loop.
\<close>

fun val_batches ::
  "'f config \<Rightarrow> ('p, 'o, 'g, 'b, 'y, 'f) lib \<Rightarrow> nat \<Rightarrow> 'b list
     \<Rightarrow> ('p, 'o, 'g, 'f) world \<times> 'f \<Rightarrow> error + (('p, 'o, 'g, 'f) world \<times> 'f)" where
  "val_batches c L steps [] (w, val_loss) = Inr (w, val_loss)"
| "val_batches c L steps (sample # rest) (w, val_loss) =
     (let output = model_call L (params w) (training w) sample;
          w' = emit (ModelCall (training w) (records_graph w)) w;
          loss = criterion L output sample;
          val_loss' = float_add L val_loss loss
      in if cfg_print_freq c = 0 then Inl ZeroDivisionError
         else val_batches c L (Suc steps) rest (w', val_loss'))"

text \<open>
  \<open>val\<close>, lines 67 to 91: \<open>model.eval()\<close>, the loop, and in the loop's \<open>else\<close> (the loop
  has no \<open>break\<close>, so it always runs) \<open>val_loss /= len(val_loader)\<close>, which raises
  ZeroDivisionError on an empty loader, then \<open>model.train()\<close> and the return. The
  \<open>criterion\<close> that \<open>val\<close> calls is the module-level name, which the script binds before
  it calls \<open>train\<close>. \<open>val_loss\<close> starts as the integer 0, which the first \<open>+=\<close> turns
  into \<open>float(0)\<close> before it adds; the division is the library's division of the float
  \<open>val_loss\<close> by \<open>float(len(val_loader))\<close>.
\<close>

definition val ::
  "'f config \<Rightarrow> ('p, 'o, 'g, 'b, 'y, 'f) lib \<Rightarrow> 'b list \<Rightarrow> ('p, 'o, 'g, 'f) world
     \<Rightarrow> error + ('f \<times> ('p, 'o, 'g, 'f) world)" where
  "val c L val_loader w =
     (let w0 = emit (ValStart (length val_loader)) (w\<lparr>training := False\<rparr>)
      in case val_batches c L 0 val_loader (w0, float_of_int L 0) of
           Inl e \<Rightarrow> Inl e
         | Inr (w1, val_loss) \<Rightarrow>
             if length val_loader = 0 then Inl ZeroDivisionError
             else Inr (float_div L val_loss (float_of_int L (int (length val_loader))),
                       w1\<lparr>training := True\<rparr>))"

text \<open>
  One iteration of the epoch loop, lines 32 to 61. After the minibatches the loop's
  \<open>else\<close> logs \<open>running_loss/len(train_loader)\<close>: ZeroDivisionError on an empty training
  loader. \<open>epoch % cfg.val_freq\<close> raises ZeroDivisionError when \<open>cfg.val_freq\<close> is 0;
  Python's \<open>%\<close> on integers takes the sign of the divisor, as \<open>mod\<close> on \<open>int\<close> does.
  \<open>val_loss < min_val_loss\<close> is the library's comparison of floats. The pair threaded
  through the loop is the world and \<open>min_val_loss\<close>.
\<close>

definition train_epoch ::
  "'f config \<Rightarrow> ('p, 'o, 'g, 'b, 'y, 'f) lib \<Rightarrow> 'b list \<Rightarrow> 'b list \<Rightarrow> int
     \<Rightarrow> ('p, 'o, 'g, 'f) world \<times> 'f \<Rightarrow> error + (('p, 'o, 'g, 'f) world \<times> 'f)" where
  "train_epoch c L train_loader val_loader epoch s =
     (case s of (w, min_val_loss) \<Rightarrow>
      (case train_batches c L 0 train_loader
               (emit (TrainingEpoch epoch) w, float_of_int L 0) of
        Inl e \<Rightarrow> Inl e
      | Inr (w1, running_loss) \<Rightarrow>
          if length train_loader = 0 then Inl ZeroDivisionError
          else if cfg_val_freq c = 0 then Inl ZeroDivisionError
          else if epoch mod cfg_val_freq c = 0 then
            (case val c L val_loader (emit (Validation epoch) (w1\<lparr>training := False\<rparr>)) of
               Inl e \<Rightarrow> Inl e
             | Inr (val_loss, w2) \<Rightarrow>
                 let w3 = emit (ValidationLoss val_loss) (w2\<lparr>training := True\<rparr>)
                 in if float_less L val_loss min_val_loss
                    then Inr (emit (SaveValModel (params w3) epoch (opt_state w3) val_loss) w3,
                              val_loss)
                    else Inr (emit SkippedSaving w3, min_val_loss))
          else Inr (w1, min_val_loss)))"

text \<open>
  \<open>range(resume_from_epoch, cfg.n_epochs)\<close> is evaluated once, before the loop, and
  the loop walks it: recursion over the list of its elements.
\<close>

definition py_range :: "int \<Rightarrow> int \<Rightarrow> int list" where
  "py_range a b = [a..b - 1]"

fun train_epochs ::
  "'f config \<Rightarrow> ('p, 'o, 'g, 'b, 'y, 'f) lib \<Rightarrow> 'b list \<Rightarrow> 'b list \<Rightarrow> int list
     \<Rightarrow> ('p, 'o, 'g, 'f) world \<times> 'f \<Rightarrow> error + (('p, 'o, 'g, 'f) world \<times> 'f)" where
  "train_epochs c L train_loader val_loader [] s = Inr s"
| "train_epochs c L train_loader val_loader (epoch # rest) s =
     (case train_epoch c L train_loader val_loader epoch s of
        Inl e \<Rightarrow> Inl e
      | Inr s' \<Rightarrow> train_epochs c L train_loader val_loader rest s')"

text \<open>
  \<open>train\<close>, lines 19 to 63: \<open>model.train()\<close>, the epoch loop, and in the loop's \<open>else\<close>
  (no \<open>break\<close>) \<open>save_end_model(model, optimizer)\<close>. The script passes both
  \<open>resume_from_epoch\<close> and \<open>min_val_loss\<close>, so their defaults (0 and 1000) never apply. The
  model, the optimizer and the criterion are the world \<open>w\<close> and the collaborators \<open>L\<close>;
  the loaders of \<open>config/data_loaders.py\<close> are lists of samples.
\<close>

definition train ::
  "'f config \<Rightarrow> ('p, 'o, 'g, 'b, 'y, 'f) lib \<Rightarrow> 'b list \<Rightarrow> 'b list
     \<Rightarrow> ('p, 'o, 'g, 'f) world \<Rightarrow> int \<Rightarrow> 'f \<Rightarrow> error + ('p, 'o, 'g, 'f) world" where
  "train c L train_loader val_loader w resume_from_epoch min_val_loss =
     (case train_epochs c L train_loader val_loader
             (py_range resume_from_epoch (cfg_n_epochs c))
             (w\<lparr>training := True\<rparr>, min_val_loss) of
        Inl e \<Rightarrow> Inl e
      | Inr (w1, m) \<Rightarrow> Inr (emit (SaveEndModel (params w1) (opt_state w1)) w1))"

text \<open>
  \<open>test\<close>, lines 95 to 108: \<open>model.eval()\<close>, one forward pass,
  \<open>prediction.squeeze().permute(1, 2, 0).cpu().numpy()\<close>, \<open>model.train()\<close>. \<open>squeeze()\<close>
  drops every dimension of size 1; \<open>permute(1, 2, 0)\<close> raises RuntimeError unless exactly
  three dimensions are left; \<open>numpy()\<close> raises RuntimeError on a tensor that requires
  gradients, which the prediction does when the forward pass was recorded.
\<close>

definition squeeze :: "nat list \<Rightarrow> nat list" where
  "squeeze shape = filter (\<lambda>d. d \<noteq> 1) shape"

definition permute_1_2_0 :: "nat list \<Rightarrow> error + nat list" where
  "permute_1_2_0 shape =
     (case shape of [a, b, c] \<Rightarrow> Inr [b, c, a] | _ \<Rightarrow> Inl RuntimeError)"

definition test ::
  "('p, 'o, 'g, 'b, 'y, 'f) lib \<Rightarrow> ('p, 'o, 'g, 'f) world \<Rightarrow> 'b
     \<Rightarrow> error + ('p, 'o, 'g, 'f) world" where
  "test L w test_image =
     (let w0 = w\<lparr>training := False\<rparr>;
          prediction = model_call L (params w0) (training w0) test_image;
          w1 = emit (ModelCall (training w0) (records_graph w0)) w0
      in case permute_1_2_0 (squeeze (size_of L prediction)) of
           Inl e \<Rightarrow> Inl e
         | Inr y \<Rightarrow>
             if records_graph w0 then Inl RuntimeError
             else Inr (w1\<lparr>training := True\<rparr>))"

section \<open>models/UNet.py\<close>

text \<open>
  The layers of the tensor library are records of their constructor arguments and their
  weights. A convolution has stride 1 and no padding unless told otherwise, and
  \<open>UNet.py\<close> never tells it otherwise.
\<close>

record 'w Conv2d =
  in_channels :: nat
  out_channels :: nat
  kernel_size :: nat
  weight :: 'w

record 'w ConvTranspose2d =
  ct_in_channels :: nat
  ct_out_channels :: nat
  ct_kernel_size :: nat
  ct_stride :: nat
  ct_weight :: 'w

record MaxPool2d =
  pool_kernel_size :: nat
  pool_stride :: nat

text \<open>The primitives a forward pass can apply, for the record of what it did apply.\<close>

datatype primitive = Conv | ReLU | Dropout | MaxPool | ConvTranspose | Interpolate | Cat

text \<open>
  The state a forward pass can touch besides its tensors: the random generator of the
  tensor library, which dropout draws from in training mode, and the primitives applied.
\<close>

record 'k fstate =
  rng :: 'k
  applied :: "primitive list"

text \<open>
  The numerical kernels are collaborators: a forward pass is written against this record
  of them, over an abstract tensor type \<open>'t\<close>. A kernel that rejects its argument (a shape
  it cannot take) raises. \<open>F_interpolate\<close> is bilinear with \<open>align_corners=False\<close>, the
  only way \<open>UNet.py\<close> calls it; \<open>F_size\<close> is \<open>Tensor.size()\<close>.
\<close>

record ('t, 'w, 'k) functional =
  F_conv2d :: "'w Conv2d \<Rightarrow> 't \<Rightarrow> error + 't"
  F_relu :: "'t \<Rightarrow> 't"
  F_dropout :: "real \<Rightarrow> bool \<Rightarrow> 't \<Rightarrow> 'k \<Rightarrow> 't \<times> 'k"
  F_max_pool2d :: "MaxPool2d \<Rightarrow> 't \<Rightarrow> error + 't"
  F_conv_transpose2d :: "'w ConvTranspose2d \<Rightarrow> 't \<Rightarrow> error + 't"
  F_interpolate :: "'t \<Rightarrow> nat list \<Rightarrow> error + 't"
  F_cat :: "'t list \<Rightarrow> nat \<Rightarrow> error + 't"
  F_size :: "'t \<Rightarrow> nat list"

type_synonym ('a, 'k) fwd = "'k fstate \<Rightarrow> error + ('a \<times> 'k fstate)"

definition then_do :: "('a, 'k) fwd \<Rightarrow> ('a \<Rightarrow> ('b, 'k) fwd) \<Rightarrow> ('b, 'k) fwd" where
  "then_do m f s = (case m s of Inl e \<Rightarrow> Inl e | Inr (a, s') \<Rightarrow> f a s')"

definition apply_prim :: "primitive \<Rightarrow> error + 't \<Rightarrow> ('t, 'k) fwd" where
  "apply_prim nm r s =
     (case r of Inl e \<Rightarrow> Inl e | Inr y \<Rightarrow> Inr (y, s\<lparr>applied := applied s @ [nm]\<rparr>))"

definition Conv2d_forward :: "('t, 'w, 'k) functional \<Rightarrow> 'w Conv2d \<Rightarrow> 't \<Rightarrow> ('t, 'k) fwd" where
  "Conv2d_forward F m x = apply_prim Conv (F_conv2d F m x)"

definition ReLU_forward :: "('t, 'w, 'k) functional \<Rightarrow> 't \<Rightarrow> ('t, 'k) fwd" where
  "ReLU_forward F x = apply_prim ReLU (Inr (F_relu F x))"

definition Dropout_forward ::
  "('t, 'w, 'k) functional \<Rightarrow> real \<Rightarrow> bool \<Rightarrow> 't \<Rightarrow> ('t, 'k) fwd" where
  "Dropout_forward F p is_training x s =
     (case F_dropout F p is_training x (rng s) of
        (y, k) \<Rightarrow> Inr (y, s\<lparr>rng := k, applied := applied s @ [Dropout]\<rparr>))"

definition MaxPool2d_forward ::
  "('t, 'w, 'k) functional \<Rightarrow> MaxPool2d \<Rightarrow> 't \<Rightarrow> ('t, 'k) fwd" where
  "MaxPool2d_forward F m x = apply_prim MaxPool (F_max_pool2d F m x)"

definition ConvTranspose2d_forward ::
  "('t, 'w, 'k) functional \<Rightarrow> 'w ConvTranspose2d \<Rightarrow> 't \<Rightarrow> ('t, 'k) fwd" where
  "ConvTranspose2d_forward F m x = apply_prim ConvTranspose (F_conv_transpose2d F m x)"

definition interpolate :: "('t, 'w, 'k) functional \<Rightarrow> 't \<Rightarrow> nat list \<Rightarrow> ('t, 'k) fwd" where
  "interpolate F x sz = apply_prim Interpolate (F_interpolate F x sz)"

definition cat :: "('t, 'w, 'k) functional \<Rightarrow> 't list \<Rightarrow> nat \<Rightarrow> ('t, 'k) fwd" where
  "cat F xs d = apply_prim Cat (F_cat F xs d)"

text \<open>
  \<open>_DoubleConvBlock\<close>, lines 11 to 32: two convolutions, each followed by the
  activation, which is \<open>nn.ReLU(inplace=True)\<close> at every use in \<open>UNet.py\<close>. The in-place
  ReLU overwrites the output of the convolution before it, a tensor nothing else holds.
  The \<open>logger.info\<close> calls are not modelled. A layer's weights come from a state
  dictionary \<open>sd\<close> by the layer's dotted name.
\<close>

record 'w DoubleConvBlock =
  conv1 :: "'w Conv2d"
  conv2 :: "'w Conv2d"

definition Conv2d_init :: "nat \<Rightarrow> nat \<Rightarrow> nat \<Rightarrow> 'w \<Rightarrow> 'w Conv2d" where
  "Conv2d_init i o' k w = \<lparr>in_channels = i, out_channels = o', kernel_size = k, weight = w\<rparr>"

definition DoubleConvBlock_init ::
  "nat \<Rightarrow> nat \<Rightarrow> nat \<Rightarrow> (string \<Rightarrow> 'w) \<Rightarrow> string \<Rightarrow> 'w DoubleConvBlock" where
  "DoubleConvBlock_init i o' k sd name =
     \<lparr>conv1 = Conv2d_init i o' k (sd (name @ ''.conv1'')),
      conv2 = Conv2d_init o' o' k (sd (name @ ''.conv2''))\<rparr>"

definition DoubleConvBlock_forward ::
  "('t, 'w, 'k) functional \<Rightarrow> 'w DoubleConvBlock \<Rightarrow> 't \<Rightarrow> ('t, 'k) fwd" where
  "DoubleConvBlock_forward F m x =
     then_do (Conv2d_forward F (conv1 m) x) (\<lambda>a.
     then_do (ReLU_forward F a) (\<lambda>b.
     then_do (Conv2d_forward F (conv2 m) b) (\<lambda>c.
     ReLU_forward F c)))"

text \<open>
  \<open>_EncoderBlock\<close>, lines 35 to 49. \<open>self.dropout\<close> is a dropout layer only when
  \<open>drop_p\<close> is truthy (not 0), else \<open>None\<close>, and \<open>forward\<close> applies it only when it is
  there. \<open>drop_p\<close> defaults to 0; a caller here passes it always. (\<open>nn.Dropout\<close> raises
  ValueError for a \<open>drop_p\<close> outside 0 to 1; the blocks built here have \<open>drop_p\<close> 0, and
  one example has one half.) \<open>is_training\<close> is
  \<open>self.training\<close>, which \<open>model.train()\<close> and \<open>model.eval()\<close> set on every layer of a
  model. The attribute \<open>double_conv_block\<close> is the field \<open>enc_double_conv_block\<close> here and
  \<open>dec_double_conv_block\<close> in the decoder block (the fields of the records share one name
  space).
\<close>

record 'w EncoderBlock =
  enc_double_conv_block :: "'w DoubleConvBlock"
  dropout :: "real option"
  pool :: MaxPool2d

definition EncoderBlock_init ::
  "nat \<Rightarrow> nat \<Rightarrow> real \<Rightarrow> (string \<Rightarrow> 'w) \<Rightarrow> string \<Rightarrow> 'w EncoderBlock" where
  "EncoderBlock_init i o' drop_p sd name =
     \<lparr>enc_double_conv_block = DoubleConvBlock_init i o' 3 sd (name @ ''.double_conv_block''),
      dropout = (if drop_p \<noteq> 0 then Some drop_p else None),
      pool = \<lparr>pool_kernel_size = 2, pool_stride = 2\<rparr>\<rparr>"

definition EncoderBlock_forward ::
  "('t, 'w, 'k) functional \<Rightarrow> bool \<Rightarrow> 'w EncoderBlock \<Rightarrow> 't \<Rightarrow> ('t, 'k) fwd" where
  "EncoderBlock_forward F is_training m x =
     then_do (DoubleConvBlock_forward F (enc_double_conv_block m) x) (\<lambda>x1.
     then_do (case dropout m of
                Some p \<Rightarrow> Dropout_forward F p is_training x1
              | None \<Rightarrow> (\<lambda>s. Inr (x1, s))) (\<lambda>x2.
     MaxPool2d_forward F (pool m) x2))"

text \<open>\<open>_DecoderBlock\<close>, lines 52 to 63.\<close>

record 'w DecoderBlock =
  dec_double_conv_block :: "'w DoubleConvBlock"
  conv_transpose :: "'w ConvTranspose2d"

definition DecoderBlock_init ::
  "nat \<Rightarrow> nat \<Rightarrow> nat \<Rightarrow> (string \<Rightarrow> 'w) \<Rightarrow> string \<Rightarrow> 'w DecoderBlock" where
  "DecoderBlock_init i mid o' sd name =
     \<lparr>dec_double_conv_block = DoubleConvBlock_init i mid 3 sd (name @ ''.double_conv_block''),
      conv_transpose =
        \<lparr>ct_in_channels = mid, ct_out_channels = o', ct_kernel_size = 2, ct_stride = 2,
         ct_weight = sd (name @ ''.conv_transpose'')\<rparr>\<rparr>"

definition DecoderBlock_forward ::
  "('t, 'w, 'k) functional \<Rightarrow> 'w DecoderBlock \<Rightarrow> 't \<Rightarrow> ('t, 'k) fwd" where
  "DecoderBlock_forward F m x =
     then_do (DoubleConvBlock_forward F (dec_double_conv_block m) x) (\<lambda>x1.
     ConvTranspose2d_forward F (conv_transpose m) x1)"

text \<open>
  \<open>UNet\<close>, lines 66 to 105. \<open>__init__\<close> builds every encoder block with the default
  \<open>drop_p\<close>, which is 0. The attribute \<open>self.output\<close> is the field \<open>output_layer\<close>
  (\<open>output\<close> is a keyword of Isabelle).
\<close>

record 'w UNet =
  input :: "'w EncoderBlock"
  enc1 :: "'w EncoderBlock"
  enc2 :: "'w EncoderBlock"
  enc3 :: "'w EncoderBlock"
  center :: "'w DecoderBlock"
  dec3 :: "'w DecoderBlock"
  dec2 :: "'w DecoderBlock"
  dec1 :: "'w DecoderBlock"
  final :: "'w DoubleConvBlock"
  output_layer :: "'w Conv2d"

definition UNet_init :: "nat \<Rightarrow> (string \<Rightarrow> 'w) \<Rightarrow> 'w UNet" where
  "UNet_init n_classes sd =
     \<lparr>input = EncoderBlock_init 3 64 0 sd ''input'',
      enc1 = EncoderBlock_init 64 128 0 sd ''enc1'',
      enc2 = EncoderBlock_init 128 256 0 sd ''enc2'',
      enc3 = EncoderBlock_init 256 512 0 sd ''enc3'',
      center = DecoderBlock_init 512 1024 512 sd ''center'',
      dec3 = DecoderBlock_init 1024 512 256 sd ''dec3'',
      dec2 = DecoderBlock_init 512 256 128 sd ''dec2'',
      dec1 = DecoderBlock_init 256 128 64 sd ''dec1'',
      final = DoubleConvBlock_init 128 64 3 sd ''final'',
      output_layer = Conv2d_init 64 n_classes 1 (sd ''output'')\<rparr>"

definition UNet_forward ::
  "('t, 'w, 'k) functional \<Rightarrow> bool \<Rightarrow> 'w UNet \<Rightarrow> 't \<Rightarrow> ('t, 'k) fwd" where
  "UNet_forward F is_training net x =
     then_do (EncoderBlock_forward F is_training (input net) x) (\<lambda>inp.
     then_do (EncoderBlock_forward F is_training (enc1 net) inp) (\<lambda>e1.
     then_do (EncoderBlock_forward F is_training (enc2 net) e1) (\<lambda>e2.
     then_do (EncoderBlock_forward F is_training (enc3 net) e2) (\<lambda>e3.
     then_do (DecoderBlock_forward F (center net) e3) (\<lambda>cen.
     then_do (interpolate F e3 (drop 2 (F_size F cen))) (\<lambda>crop1.
     then_do (cat F [cen, crop1] 1) (\<lambda>c1.
     then_do (DecoderBlock_forward F (dec3 net) c1) (\<lambda>d3.
     then_do (interpolate F e2 (drop 2 (F_size F d3))) (\<lambda>crop2.
     then_do (cat F [d3, crop2] 1) (\<lambda>c2.
     then_do (DecoderBlock_forward F (dec2 net) c2) (\<lambda>d2.
     then_do (interpolate F e1 (drop 2 (F_size F d2))) (\<lambda>crop3.
     then_do (cat F [d2, crop3] 1) (\<lambda>c3.
     then_do (DecoderBlock_forward F (dec1 net) c3) (\<lambda>d1.
     then_do (interpolate F inp (drop 2 (F_size F d1))) (\<lambda>crop4.
     then_do (cat F [d1, crop4] 1) (\<lambda>c4.
     then_do (DoubleConvBlock_forward F (final net) c4) (\<lambda>fin.
     then_do (Conv2d_forward F (output_layer net) fin) (\<lambda>out.
     interpolate F out (drop 2 (F_size F x))))))))))))))))))))"

subsection \<open>The kernels on shapes\<close>

text \<open>
  What each kernel of the tensor library does to the shape \<open>[N, C, H, W]\<close> of its
  argument, and when it rejects it. A tensor is abstracted to its shape.
  \<^item> An unpadded convolution of stride 1 with a \<open>k\<close> by \<open>k\<close> kernel needs \<open>C\<close> to be its
    \<open>in_channels\<close>, at least one output channel, and \<open>H\<close>, \<open>W\<close> at least \<open>k\<close>, and gives
    \<open>H - k + 1\<close> by \<open>W - k + 1\<close>.
  \<^item> Max pooling without padding gives \<open>(H - k) div stride + 1\<close> and needs \<open>H\<close>, \<open>W\<close> at
    least \<open>k\<close> (else the output would be empty).
  \<^item> A transposed convolution without padding gives \<open>(H - 1) * stride + k\<close>.
  \<^item> Interpolation to a size keeps \<open>N\<close> and \<open>C\<close> and needs every spatial extent, of the
    input and of the size asked for, to be positive.
  \<^item> Concatenation along dimension 1 adds the channels and needs all else equal.
  An argument that is not four-dimensional is rejected at once. (Some kernels of the
  library take an unbatched three-dimensional argument; \<open>UNet.forward\<close> raises on one
  all the same, at its first bilinear interpolation.)
\<close>

fun conv2d_shape :: "'w Conv2d \<Rightarrow> nat list \<Rightarrow> error + nat list" where
  "conv2d_shape m [N, C, H, W] =
     (if C = in_channels m \<and> 0 < out_channels m \<and> 0 < kernel_size m
         \<and> kernel_size m \<le> H \<and> kernel_size m \<le> W
      then Inr [N, out_channels m, H - kernel_size m + 1, W - kernel_size m + 1]
      else Inl RuntimeError)"
| "conv2d_shape m _ = Inl RuntimeError"

fun max_pool2d_shape :: "MaxPool2d \<Rightarrow> nat list \<Rightarrow> error + nat list" where
  "max_pool2d_shape m [N, C, H, W] =
     (if 0 < pool_stride m \<and> 0 < pool_kernel_size m
         \<and> pool_kernel_size m \<le> H \<and> pool_kernel_size m \<le> W
      then Inr [N, C, (H - pool_kernel_size m) div pool_stride m + 1,
                (W - pool_kernel_size m) div pool_stride m + 1]
      else Inl RuntimeError)"
| "max_pool2d_shape m _ = Inl RuntimeError"

fun conv_transpose2d_shape :: "'w ConvTranspose2d \<Rightarrow> nat list \<Rightarrow> error + nat list" where
  "conv_transpose2d_shape m [N, C, H, W] =
     (if C = ct_in_channels m \<and> 0 < H \<and> 0 < W \<and> 0 < ct_kernel_size m \<and> 0 < ct_stride m
      then Inr [N, ct_out_channels m, (H - 1) * ct_stride m + ct_kernel_size m,
                (W - 1) * ct_stride m + ct_kernel_size m]
      else Inl RuntimeError)"
| "conv_transpose2d_shape m _ = Inl RuntimeError"

fun interpolate_shape :: "nat list \<Rightarrow> nat list \<Rightarrow> error + nat list" where
  "interpolate_shape [N, C, H, W] [h, w] =
     (if 0 < H \<and> 0 < W \<and> 0 < h \<and> 0 < w then Inr [N, C, h, w] else Inl RuntimeError)"
| "interpolate_shape _ _ = Inl RuntimeError"

fun cat_shape :: "nat list list \<Rightarrow> nat \<Rightarrow> error + nat list" where
  "cat_shape [[N1, C1, H1, W1], [N2, C2, H2, W2]] d =
     (if d = 1 \<and> N1 = N2 \<and> H1 = H2 \<and> W1 = W2 then Inr [N1, C1 + C2, H1, W1]
      else Inl RuntimeError)"
| "cat_shape _ _ = Inl RuntimeError"

definition shape_functional :: "(nat list, 'w, 'k) functional" where
  "shape_functional =
     \<lparr>F_conv2d = conv2d_shape,
      F_relu = (\<lambda>x. x),
      F_dropout = (\<lambda>p is_training x k. (x, k)),
      F_max_pool2d = max_pool2d_shape,
      F_conv_transpose2d = conv_transpose2d_shape,
      F_interpolate = interpolate_shape,
      F_cat = cat_shape,
      F_size = (\<lambda>x. x)\<rparr>"

section \<open>main.py: the command line and the dispatch\<close>

text \<open>
  Lines 113 to 123. The parser has \<open>--phase\<close> (a string, default \<open>'train'\<close>), \<open>--load\<close>
  (\<open>action='store_true'\<close>, which can only store \<open>True\<close>), the \<open>-h\<close>/\<open>--help\<close> that
  \<open>argparse\<close> adds, and \<open>parser.set_defaults(load=True)\<close>, which replaces the default
  \<open>False\<close> of the \<open>store_true\<close> action. \<open>argparse\<close> itself is a collaborator; the model
  keeps which command lines it parses, into what, and on which it exits (the exit status,
  0 after the help and 2 after an error, is not kept). Tokens are strings of ASCII
  characters.
  \<^item> A long option may be shortened to a prefix longer than \<open>--\<close> (the three long options
    differ in their first letter, so every such prefix is unambiguous); the name of the
    option in a token is what precedes its first \<open>=\<close>, and what follows is its value.
  \<^item> \<open>--help\<close> and every token that begins with \<open>-h\<close> exit: they print the help or are
    refused.
  \<^item> \<open>--load\<close> stores \<open>True\<close>; with \<open>=VALUE\<close> it is refused.
  \<^item> \<open>--phase\<close> takes its value from \<open>--phase=VALUE\<close> or from the next token, and is
    refused when there is none or it looks like an option: it begins with \<open>-\<close>, is
    longer than that, and either names an option (it begins with \<open>-h\<close>, or with \<open>--=\<close>,
    or is or abbreviates a long option, with or without \<open>=VALUE\<close>), or neither reads as a
    negative number (\<open>-\<close> and digits, or \<open>-\<close>, digits or none, a point and digits; one
    newline may follow either) nor holds a space.
  \<^item> Any other token is left over (the parser has no positional argument), and a \<open>--\<close>
    leaves itself and all that follows it over; when the tokens are used up, anything
    left over is refused.
  Whatever the tokens, the only value ever stored in \<open>load\<close> is \<open>True\<close>.
\<close>

record namespace =
  phase :: string
  load :: bool

definition abbreviates :: "string \<Rightarrow> string \<Rightarrow> bool" where
  "abbreviates tok opt = (2 < length tok \<and> take (length tok) opt = tok)"

definition option_name :: "string \<Rightarrow> string" where
  "option_name tok = takeWhile (\<lambda>ch. ch \<noteq> CHR ''='') tok"

definition explicit_arg :: "string \<Rightarrow> string option" where
  "explicit_arg tok =
     (if CHR ''='' \<in> set tok then Some (tl (dropWhile (\<lambda>ch. ch \<noteq> CHR ''='') tok)) else None)"

definition is_digit :: "char \<Rightarrow> bool" where
  "is_digit ch = (ch \<in> set ''0123456789'')"

definition chomp :: "string \<Rightarrow> string" where
  "chomp tok = (if tok \<noteq> [] \<and> last tok = CHR 0x0A then butlast tok else tok)"

definition negative_number :: "string \<Rightarrow> bool" where
  "negative_number tok =
     (case chomp tok of
        [] \<Rightarrow> False
      | ch # ds \<Rightarrow>
          ch = CHR ''-''
          \<and> ((ds \<noteq> [] \<and> list_all is_digit ds)
             \<or> (case dropWhile is_digit ds of
                   [] \<Rightarrow> False
                 | dot # fs \<Rightarrow> dot = CHR ''.'' \<and> fs \<noteq> [] \<and> list_all is_digit fs)))"

definition names_option :: "string \<Rightarrow> bool" where
  "names_option tok =
     (take 2 tok = ''-h'' \<or> take 3 tok = ''--=''
      \<or> abbreviates (option_name tok) ''--help''
      \<or> abbreviates (option_name tok) ''--load'' \<or> abbreviates (option_name tok) ''--phase'')"

definition option_like :: "string \<Rightarrow> bool" where
  "option_like tok =
     (1 < length tok \<and> hd tok = CHR ''-''
      \<and> (names_option tok \<or> (\<not> negative_number tok \<and> CHR '' '' \<notin> set tok)))"

text \<open>
  \<open>left_over\<close> tells whether a token has been left over so far. After a \<open>--\<close> every token
  is left over, the \<open>--\<close> included, so the parser exits whatever follows.
\<close>

fun parse_tokens :: "string list \<Rightarrow> namespace \<Rightarrow> bool \<Rightarrow> error + namespace" where
  "parse_tokens [] ns left_over = (if left_over then Inl SystemExit else Inr ns)"
| "parse_tokens (tok # rest) ns left_over =
     (if tok = ''--'' then Inl SystemExit
      else if take 2 tok = ''-h'' then Inl SystemExit
      else if abbreviates (option_name tok) ''--help'' then Inl SystemExit
      else if abbreviates (option_name tok) ''--load'' then
        (if explicit_arg tok = None then parse_tokens rest (ns\<lparr>load := True\<rparr>) left_over
         else Inl SystemExit)
      else if abbreviates (option_name tok) ''--phase'' then
        (case explicit_arg tok of
           Some v \<Rightarrow> parse_tokens rest (ns\<lparr>phase := v\<rparr>) left_over
         | None \<Rightarrow>
             (case rest of
                [] \<Rightarrow> Inl SystemExit
              | v # rest' \<Rightarrow>
                  if option_like v then Inl SystemExit
                  else parse_tokens rest' (ns\<lparr>phase := v\<rparr>) left_over))
      else parse_tokens rest ns True)"

definition parse_args :: "string list \<Rightarrow> error + namespace" where
  "parse_args argv = parse_tokens argv \<lparr>phase = ''train'', load = True\<rparr> False"

text \<open>
  The checkpoint file as \<open>torch.load(cfg.model_path)\<close> reads it; a missing file is
  \<open>None\<close> and raises FileNotFoundError.
\<close>

record ('p, 'o, 'f) checkpoint =
  ckpt_model_state_dict :: 'p
  ckpt_optimizer_state_dict :: 'o
  ckpt_epoch :: int
  ckpt_val_loss :: 'f

text \<open>
  Lines 125 to 153: the values of the config file, replaced by those of the checkpoint
  when \<open>args.load\<close>, then the dispatch on \<open>args.phase\<close>. \<open>next(iter(dl.test_loader))\<close>
  raises StopIteration on an empty loader.
\<close>

definition restore ::
  "('p, 'o, 'f) checkpoint option \<Rightarrow> ('p, 'o, 'g, 'f) world
     \<Rightarrow> error + (('p, 'o, 'g, 'f) world \<times> int \<times> 'f)" where
  "restore file w =
     (case file of
        None \<Rightarrow> Inl FileNotFoundError
      | Some checkpoint \<Rightarrow>
          Inr (w\<lparr>params := ckpt_model_state_dict checkpoint,
                 opt_state := ckpt_optimizer_state_dict checkpoint\<rparr>,
               ckpt_epoch checkpoint, ckpt_val_loss checkpoint))"

definition main ::
  "string list \<Rightarrow> 'f config \<Rightarrow> ('p, 'o, 'g, 'b, 'y, 'f) lib \<Rightarrow> 'b list \<Rightarrow> 'b list \<Rightarrow> 'b list
     \<Rightarrow> ('p, 'o, 'f) checkpoint option \<Rightarrow> ('p, 'o, 'g, 'f) world
     \<Rightarrow> error + ('p, 'o, 'g, 'f) world" where
  "main argv c L train_loader val_loader test_loader file w =
     (case parse_args argv of
        Inl e \<Rightarrow> Inl e
      | Inr args \<Rightarrow>
          (case (if load args then restore file w
                 else Inr (w, cfg_resume_from_epoch c, cfg_min_val_loss c)) of
             Inl e \<Rightarrow> Inl e
           | Inr (w1, resume_from_epoch, min_val_loss) \<Rightarrow>
               if phase args = ''train'' then
                 train c L train_loader val_loader w1 resume_from_epoch min_val_loss
               else if phase args = ''test'' then
                 (case test_loader of
                    [] \<Rightarrow> Inl StopIteration
                  | sample # _ \<Rightarrow> test L w1 sample)
               else Inl ValueError))"

section \<open>The specification's side\<close>

text \<open>
  The loss of one batch, and the mean loss of the model over a loader as the program
  computes it: the batch losses added from left to right onto \<open>float(0)\<close>, and the sum
  divided by the float of the number of batches, all in the library's float arithmetic
  (so it is the arithmetic mean up to the rounding of those operations, and not a real
  number).
\<close>

definition batch_loss :: "('p, 'o, 'g, 'b, 'y, 'f) lib \<Rightarrow> 'p \<Rightarrow> bool \<Rightarrow> 'b \<Rightarrow> 'f" where
  "batch_loss L p mode sample = criterion L (model_call L p mode sample) sample"

definition float_sum :: "('p, 'o, 'g, 'b, 'y, 'f) lib \<Rightarrow> 'f list \<Rightarrow> 'f" where
  "float_sum L xs = foldl (float_add L) (float_of_int L 0) xs"

definition mean_loss :: "('p, 'o, 'g, 'b, 'y, 'f) lib \<Rightarrow> 'p \<Rightarrow> bool \<Rightarrow> 'b list \<Rightarrow> 'f" where
  "mean_loss L p mode loader =
     float_div L (float_sum L (map (batch_loss L p mode) loader))
       (float_of_int L (int (length loader)))"

text \<open>
  The checkpoint policy in the specification's words, as a monitor over the events of a
  run. It follows the current parameters, optimizer state and epoch, the least validation
  loss so far (\<open>best\<close>), and where the run stands:
  \<^item> \<open>Idle\<close>: training. An epoch may start, a training step may run (its forward pass in
    training mode), and a validation pass may start, announced for the current epoch. A
    forward pass in evaluation mode, a logged loss, a save or a skip is a violation.
  \<^item> \<open>Validating k\<close>: inside a validation pass with \<open>k\<close> batches to go. Only a forward
    pass in evaluation mode may happen, and after the last one only the logging of the
    validation loss, which must be \<open>loss_of\<close> the current parameters (the mean loss over the
    validation loader that the pass has just computed).
  \<^item> \<open>Pending v\<close>: the validation loss \<open>v\<close> awaits its decision, which must come next:
    when \<open>v\<close> is strictly less than \<open>best\<close>, a save of the current model with the current
    epoch, the current optimizer state and \<open>v\<close>, after which \<open>best\<close> is \<open>v\<close>; otherwise
    \<open>SkippedSaving\<close>, and \<open>best\<close> stays.
  Anything else violates the policy (\<open>None\<close>). The final save is not an event of the
  loop. \<open>lt\<close> is the comparison of floats.
\<close>

datatype 'f stage = Idle | Validating nat | Pending 'f

record ('p, 'o, 'f) monitor =
  cur_params :: 'p
  cur_opt :: 'o
  cur_epoch :: int
  best :: 'f
  stage :: "'f stage"

definition policy_step ::
  "('f \<Rightarrow> 'f \<Rightarrow> bool) \<Rightarrow> ('p \<Rightarrow> 'f) \<Rightarrow> ('p, 'o, 'f) monitor \<Rightarrow> ('p, 'o, 'f) event
     \<Rightarrow> ('p, 'o, 'f) monitor option" where
  "policy_step lt loss_of M ev =
     (case stage M of
        Idle \<Rightarrow>
          (case ev of
             TrainingEpoch e \<Rightarrow> Some (M\<lparr>cur_epoch := e\<rparr>)
           | ModelCall mode graph \<Rightarrow> if mode then Some M else None
           | ZeroGrad \<Rightarrow> Some M
           | Backward \<Rightarrow> Some M
           | OptimizerStep p o' \<Rightarrow> Some (M\<lparr>cur_params := p, cur_opt := o'\<rparr>)
           | Validation e \<Rightarrow> if e = cur_epoch M then Some M else None
           | ValStart n \<Rightarrow> Some (M\<lparr>stage := Validating n\<rparr>)
           | _ \<Rightarrow> None)
      | Validating k \<Rightarrow>
          (case ev of
             ModelCall mode graph \<Rightarrow>
               if \<not> mode \<and> 0 < k then Some (M\<lparr>stage := Validating (k - 1)\<rparr>) else None
           | ValidationLoss v \<Rightarrow>
               if k = 0 \<and> v = loss_of (cur_params M) then Some (M\<lparr>stage := Pending v\<rparr>)
               else None
           | _ \<Rightarrow> None)
      | Pending v \<Rightarrow>
          (case ev of
             SaveValModel p e o' v' \<Rightarrow>
               if lt v (best M) \<and> v' = v \<and> p = cur_params M \<and> e = cur_epoch M
                  \<and> o' = cur_opt M
               then Some (M\<lparr>best := v, stage := Idle\<rparr>) else None
           | SkippedSaving \<Rightarrow> if lt v (best M) then None else Some (M\<lparr>stage := Idle\<rparr>)
           | _ \<Rightarrow> None))"

fun policy_run ::
  "('f \<Rightarrow> 'f \<Rightarrow> bool) \<Rightarrow> ('p \<Rightarrow> 'f) \<Rightarrow> ('p, 'o, 'f) monitor \<Rightarrow> ('p, 'o, 'f) event list
     \<Rightarrow> ('p, 'o, 'f) monitor option" where
  "policy_run lt loss_of M [] = Some M"
| "policy_run lt loss_of M (ev # evs) =
     (case policy_step lt loss_of M ev of
        None \<Rightarrow> None
      | Some M' \<Rightarrow> policy_run lt loss_of M' evs)"

text \<open>
  The course of a run: its events without the parameters, optimizer states and losses
  they carry. \<open>Forward True\<close> is a forward pass in training mode and \<open>Forward False\<close> one
  in evaluation mode; \<open>Decision\<close> is a save of the best model or \<open>SkippedSaving\<close>. What the
  specification expects the course of the epochs \<open>es\<close> to be: every epoch in turn, its
  start, one training step for every batch of the training loader, and then, exactly when
  \<open>epoch mod cfg.val_freq\<close> is 0, one validation pass (announced for that epoch, one
  forward pass in evaluation mode for every batch of the validation loader, the loss
  logged, the decision); and no forward pass in evaluation mode anywhere else.
\<close>

datatype mark =
    EpochStart int | Forward bool | GradZero | GradBackward | Stepped
  | ValidationAt int | ValBegin nat | LossLogged | Decision | FinalSave

fun mark_of :: "('p, 'o, 'f) event \<Rightarrow> mark" where
  "mark_of (TrainingEpoch e) = EpochStart e"
| "mark_of (ModelCall mode graph) = Forward mode"
| "mark_of ZeroGrad = GradZero"
| "mark_of Backward = GradBackward"
| "mark_of (OptimizerStep p o') = Stepped"
| "mark_of (Validation e) = ValidationAt e"
| "mark_of (ValStart n) = ValBegin n"
| "mark_of (ValidationLoss v) = LossLogged"
| "mark_of (SaveValModel p e o' v) = Decision"
| "mark_of SkippedSaving = Decision"
| "mark_of (SaveEndModel p o') = FinalSave"

definition training_marks :: "nat \<Rightarrow> mark list" where
  "training_marks n_train =
     concat (replicate n_train [Forward True, GradZero, GradBackward, Stepped])"

definition validation_marks :: "int \<Rightarrow> nat \<Rightarrow> mark list" where
  "validation_marks e n_val =
     [ValidationAt e, ValBegin n_val] @ replicate n_val (Forward False) @ [LossLogged, Decision]"

definition expected_course :: "'f config \<Rightarrow> nat \<Rightarrow> nat \<Rightarrow> int list \<Rightarrow> mark list" where
  "expected_course c n_train n_val es =
     concat (map (\<lambda>e. EpochStart e # training_marks n_train
                       @ (if e mod cfg_val_freq c = 0 then validation_marks e n_val else []))
                 es)"

fun is_training_step :: "('p, 'o, 'f) event \<Rightarrow> bool" where
  "is_training_step (OptimizerStep p o') = True"
| "is_training_step Backward = True"
| "is_training_step ZeroGrad = True"
| "is_training_step ev = False"

fun epochs_of :: "('p, 'o, 'f) event list \<Rightarrow> int list" where
  "epochs_of [] = []"
| "epochs_of (TrainingEpoch e # evs) = e # epochs_of evs"
| "epochs_of (ev # evs) = epochs_of evs"

text \<open>
  The primitives of one forward pass of the network that \<open>UNet.__init__\<close> builds, in the
  order of \<open>UNet.forward\<close>.
\<close>

definition double_conv_primitives :: "primitive list" where
  "double_conv_primitives = [Conv, ReLU, Conv, ReLU]"

definition unet_primitives :: "primitive list" where
  "unet_primitives =
     concat (replicate 4 (double_conv_primitives @ [MaxPool]))
     @ double_conv_primitives @ [ConvTranspose]
     @ concat (replicate 3 ([Interpolate, Cat] @ double_conv_primitives @ [ConvTranspose]))
     @ [Interpolate, Cat] @ double_conv_primitives @ [Conv, Interpolate]"

text \<open>
  A computation is pure when its result does not depend on the state it starts from and
  all it does to the state is to log the primitives \<open>ps\<close>.
\<close>

definition pure_with :: "primitive list \<Rightarrow> ('a, 'k) fwd \<Rightarrow> bool" where
  "pure_with ps m =
     (\<exists>r. \<forall>s. m s = (case r of Inl e \<Rightarrow> Inl e
                        | Inr y \<Rightarrow> Inr (y, s\<lparr>applied := applied s @ ps\<rparr>)))"

section \<open>A small concrete run\<close>

text \<open>
  A one-parameter model for evaluating the definitions: the prediction is the parameter,
  the loss is the squared distance to the sample, and a step of the optimizer (learning
  rate one half) moves the parameter onto the sample. The optimizer's state counts its
  steps. Its floats are reals with exact arithmetic; the numbers of the run below are
  small integers, on which the arithmetic of binary floats is exact too.
\<close>

definition demo_lib :: "(real, nat, real, real, real, real) lib" where
  "demo_lib =
     \<lparr>model_call = (\<lambda>p mode b. p),
      criterion = (\<lambda>y b. (y - b) * (y - b)),
      loss_backward = (\<lambda>p mode b g. g + 2 * (p - b)),
      zero_grad = (\<lambda>g. 0),
      optimizer_step = (\<lambda>k p g. (p - g / 2, Suc k)),
      size_of = (\<lambda>y. [1, 2, 4, 4]),
      float_of_int = real_of_int,
      float_add = (+),
      float_div = (/),
      float_less = (<)\<rparr>"

definition demo_config :: "real config" where
  "demo_config =
     \<lparr>cfg_n_epochs = 3, cfg_val_freq = 2, cfg_print_freq = 10,
      cfg_resume_from_epoch = 0, cfg_min_val_loss = 1000\<rparr>"

definition demo_world :: "(real, nat, real, real) world" where
  "demo_world =
     \<lparr>params = 0, training = False, opt_state = 0, grads = 0,
      requires_grad = True, grad_enabled = True, trace = []\<rparr>"

definition demo_train_loader :: "real list" where
  "demo_train_loader = [3]"

definition demo_val_loader :: "real list" where
  "demo_val_loader = [1, 3]"

definition demo_state :: "nat fstate" where
  "demo_state = \<lparr>rng = 7, applied = []\<rparr>"

definition demo_sd :: "string \<Rightarrow> unit" where
  "demo_sd name = ()"

text \<open>
  A kernel record on shapes whose dropout draws from the generator in training mode, as
  the library's does.
\<close>

definition drawing_functional :: "(nat list, unit, nat) functional" where
  "drawing_functional =
     shape_functional\<lparr>F_dropout := (\<lambda>p mode x k. (x, if mode then Suc k else k))\<rparr>"

section \<open>Facts about the training loop\<close>


lemma emit_simps [simp]:
  "trace (emit ev w) = trace w @ [ev]"
  "params (emit ev w) = params w"
  "training (emit ev w) = training w"
  "opt_state (emit ev w) = opt_state w"
  "grads (emit ev w) = grads w"
  "requires_grad (emit ev w) = requires_grad w"
  "grad_enabled (emit ev w) = grad_enabled w"
  by (simp_all add: emit_def)

lemma records_graph_emit [simp]: "records_graph (emit ev w) = records_graph w"
  by (simp add: records_graph_def)

lemma val_batches_eq:
  "val_batches c L k loader (w, a) =
     (if loader \<noteq> [] \<and> cfg_print_freq c = 0 then Inl ZeroDivisionError
      else Inr (w\<lparr>trace := trace w @ replicate (length loader)
                                     (ModelCall (training w) (records_graph w))\<rparr>,
                foldl (float_add L) a (map (batch_loss L (params w) (training w)) loader)))"
proof (induction loader arbitrary: k w a)
  case Nil
  show ?case by simp
next
  case (Cons sample rest)
  show ?case
    by (simp add: Cons.IH Let_def emit_def records_graph_def replicate_app_Cons_same
          batch_loss_def [symmetric])
qed

lemma val_eq:
  "val c L loader w =
     (if loader = [] \<or> cfg_print_freq c = 0 then Inl ZeroDivisionError
      else Inr (mean_loss L (params w) False loader,
                w\<lparr>training := True,
                  trace := trace w @ ValStart (length loader)
                             # replicate (length loader) (ModelCall False (records_graph w))\<rparr>))"
  by (simp add: val_def val_batches_eq Let_def emit_def records_graph_def mean_loss_def
        float_sum_def)

text \<open>
  With exact arithmetic in place of the floats, \<open>mean_loss\<close> is the arithmetic mean.
\<close>

lemma foldl_add_sum_list: "foldl (+) a xs = a + sum_list xs" for a :: real
  by (induction xs arbitrary: a) simp_all

lemma mean_loss_exact:
  fixes L :: "('p, 'o, 'g, 'b, 'y, real) lib"
  assumes "float_of_int L = real_of_int" and "float_add L = (+)" and "float_div L = (/)"
  shows "mean_loss L p mode loader
           = sum_list (map (batch_loss L p mode) loader) / real (length loader)"
  by (simp add: mean_loss_def float_sum_def assms foldl_add_sum_list)

lemma train_step_Inr:
  assumes "train_step L w sample = Inr (w', loss)"
  shows "training w' = training w" and "grad_enabled w' = grad_enabled w"
    and "requires_grad w' = requires_grad w" and "records_graph w"
    and "trace w' = trace w @ [ModelCall (training w) True, ZeroGrad, Backward,
                               OptimizerStep (params w') (opt_state w')]"
  using assms
  by (auto simp: train_step_def Let_def emit_def records_graph_def split: if_splits prod.splits)

lemma train_step_ok:
  "records_graph w \<Longrightarrow> \<exists>w' loss. train_step L w sample = Inr (w', loss)"
  by (simp add: train_step_def Let_def emit_def records_graph_def split: prod.splits)

lemma policy_run_append:
  "policy_run lt loss_of M (xs @ ys) =
     (case policy_run lt loss_of M xs of
        None \<Rightarrow> None
      | Some M' \<Rightarrow> policy_run lt loss_of M' ys)"
  by (induction xs arbitrary: M) (auto split: option.splits)

lemma policy_training_step:
  "stage M = Idle \<Longrightarrow>
     policy_run lt loss_of M ([ModelCall True g, ZeroGrad, Backward, OptimizerStep p o'] @ evs)
       = policy_run lt loss_of (M\<lparr>cur_params := p, cur_opt := o'\<rparr>) evs"
  by (simp add: policy_step_def)

lemma policy_validation_forwards:
  "stage M = Validating (k + n) \<Longrightarrow>
     policy_run lt loss_of M (replicate n (ModelCall False g) @ evs)
       = policy_run lt loss_of (M\<lparr>stage := Validating k\<rparr>) evs"
proof (induction n arbitrary: M)
  case 0
  then have "M\<lparr>stage := Validating k\<rparr> = M" by simp
  then show ?case by simp
next
  case (Suc n)
  then show ?case by (simp add: policy_step_def)
qed

lemma epochs_of_append [simp]: "epochs_of (xs @ ys) = epochs_of xs @ epochs_of ys"
  by (induction xs rule: epochs_of.induct) auto

lemma epochs_of_ModelCalls [simp]: "epochs_of (replicate n (ModelCall a b)) = []"
  by (induction n) auto

lemma steps_ModelCalls [simp]: "filter is_training_step (replicate n (ModelCall a b)) = []"
  by (induction n) auto

lemma train_batches_Inr:
  assumes "train_batches c L k loader (w, a) = Inr (w', a')"
  shows "training w' = training w \<and> grad_enabled w' = grad_enabled w
         \<and> requires_grad w' = requires_grad w
         \<and> (loader \<noteq> [] \<longrightarrow> cfg_print_freq c \<noteq> 0 \<and> records_graph w)
         \<and> (\<exists>evs. trace w' = trace w @ evs \<and> epochs_of evs = []
               \<and> length (filter is_training_step evs) = 3 * length loader
               \<and> map mark_of evs
                   = concat (replicate (length loader)
                       [Forward (training w), GradZero, GradBackward, Stepped])
               \<and> (\<forall>lt loss_of M. training w \<longrightarrow> stage M = Idle
                     \<longrightarrow> cur_params M = params w \<longrightarrow> cur_opt M = opt_state w
                     \<longrightarrow> policy_run lt loss_of M evs
                           = Some (M\<lparr>cur_params := params w', cur_opt := opt_state w'\<rparr>)))"
  using assms
proof (induction loader arbitrary: k w a)
  case Nil
  then show ?case by auto
next
  case (Cons sample rest)
  from Cons.prems have pf: "cfg_print_freq c \<noteq> 0"
    by (auto split: if_splits)
  with Cons.prems obtain w1 loss where
    step: "train_step L w sample = Inr (w1, loss)" and
    rest: "train_batches c L (Suc k) rest (w1, float_add L a loss) = Inr (w', a')"
    by (auto split: sum.splits)
  note s = train_step_Inr [OF step]
  from Cons.IH [OF rest] obtain evs where
    flags: "training w' = training w1" "grad_enabled w' = grad_enabled w1"
      "requires_grad w' = requires_grad w1" and
    tr: "trace w' = trace w1 @ evs" and ep: "epochs_of evs = []" and
    cnt: "length (filter is_training_step evs) = 3 * length rest" and
    mk: "map mark_of evs
           = concat (replicate (length rest)
               [Forward (training w1), GradZero, GradBackward, Stepped])" and
    pol: "\<And>lt loss_of M. training w1 \<Longrightarrow> stage M = Idle
            \<Longrightarrow> cur_params M = params w1 \<Longrightarrow> cur_opt M = opt_state w1
            \<Longrightarrow> policy_run lt loss_of M evs
                  = Some (M\<lparr>cur_params := params w', cur_opt := opt_state w'\<rparr>)"
    by blast
  let ?step = "[ModelCall (training w) True, ZeroGrad, Backward,
                OptimizerStep (params w1) (opt_state w1)]"
  have t: "trace w' = trace w @ ?step @ evs" using tr s(5) by simp
  have e: "epochs_of (?step @ evs) = []" using ep by simp
  have n: "length (filter is_training_step (?step @ evs)) = 3 * length (sample # rest)"
    using cnt by simp
  have m: "map mark_of (?step @ evs)
             = concat (replicate (length (sample # rest))
                 [Forward (training w), GradZero, GradBackward, Stepped])"
    using mk s(1) by simp
  have p: "policy_run lt loss_of M (?step @ evs)
             = Some (M\<lparr>cur_params := params w', cur_opt := opt_state w'\<rparr>)"
    if "training w" "stage M = Idle" "cur_params M = params w" "cur_opt M = opt_state w"
    for lt loss_of M
    using that s(1) pol [of "M\<lparr>cur_params := params w1, cur_opt := opt_state w1\<rparr>" lt loss_of]
    by (simp add: policy_step_def)
  show ?case
    using flags s pf t e n m p by (intro conjI exI [of _ "?step @ evs"] allI impI) simp_all
qed

lemma train_batches_ok:
  assumes "cfg_print_freq c \<noteq> 0" and "records_graph w"
  shows "\<exists>s'. train_batches c L k loader (w, a) = Inr s'"
  using assms
proof (induction loader arbitrary: k w a)
  case Nil
  then show ?case by simp
next
  case (Cons sample rest)
  from train_step_ok [OF Cons.prems(2), of L sample] obtain w1 loss where
    step: "train_step L w sample = Inr (w1, loss)" by blast
  from train_step_Inr [OF step] Cons.prems(2) have "records_graph w1"
    by (simp add: records_graph_def)
  from Cons.IH [OF Cons.prems(1) this] step Cons.prems(1) show ?case by simp
qed


lemma expected_course_simps [simp]:
  "expected_course c nt nv [] = []"
  "expected_course c nt nv (e # es) =
     EpochStart e # training_marks nt
       @ (if e mod cfg_val_freq c = 0 then validation_marks e nv else [])
       @ expected_course c nt nv es"
  by (simp_all add: expected_course_def)

lemma expected_course_append:
  "expected_course c nt nv (xs @ ys) = expected_course c nt nv xs @ expected_course c nt nv ys"
  by (simp add: expected_course_def)

lemma monitor_idle_eq:
  "stage M = Idle \<Longrightarrow> best M = m \<Longrightarrow>
   M\<lparr>cur_epoch := e, cur_params := p, cur_opt := q\<rparr>
     = M\<lparr>cur_params := p, cur_opt := q, cur_epoch := e, best := m, stage := Idle\<rparr>"
  by (cases M) simp

lemma train_epoch_Inr:
  assumes run: "train_epoch c L trl vl e (w, m) = Inr (w', m')" and mode: "training w"
  shows "training w' \<and> grad_enabled w' = grad_enabled w \<and> requires_grad w' = requires_grad w
         \<and> (\<exists>evs. trace w' = trace w @ evs
               \<and> map mark_of evs = expected_course c (length trl) (length vl) [e]
               \<and> epochs_of evs = [e]
               \<and> length (filter is_training_step evs) = 3 * length trl
               \<and> (\<forall>M. stage M = Idle \<longrightarrow> cur_params M = params w \<longrightarrow> cur_opt M = opt_state w
                     \<longrightarrow> best M = m
                     \<longrightarrow> policy_run (float_less L) (\<lambda>p. mean_loss L p False vl) M evs
                           = Some (M\<lparr>cur_params := params w', cur_opt := opt_state w',
                                     cur_epoch := e, best := m', stage := Idle\<rparr>)))"
proof -
  let ?lt = "float_less L" and ?lo = "\<lambda>p. mean_loss L p False vl"
  from run obtain w1 rl where
    tb: "train_batches c L 0 trl (emit (TrainingEpoch e) w, float_of_int L 0) = Inr (w1, rl)"
    by (auto simp: train_epoch_def split: sum.splits)
  from run tb have vf: "cfg_val_freq c \<noteq> 0"
    by (auto simp: train_epoch_def split: if_splits)
  from train_batches_Inr [OF tb] mode obtain evs where
    flags: "training w1 = training w" "grad_enabled w1 = grad_enabled w"
      "requires_grad w1 = requires_grad w" and
    tr: "trace w1 = trace w @ TrainingEpoch e # evs" and
    ep: "epochs_of evs = []" and
    cnt: "length (filter is_training_step evs) = 3 * length trl" and
    mk: "map mark_of evs = training_marks (length trl)" and
    pol: "\<And>lt loss_of M. stage M = Idle \<Longrightarrow> cur_params M = params w
            \<Longrightarrow> cur_opt M = opt_state w
            \<Longrightarrow> policy_run lt loss_of M evs
                  = Some (M\<lparr>cur_params := params w1, cur_opt := opt_state w1\<rparr>)"
    by (auto simp: training_marks_def)
  show ?thesis
  proof (cases "e mod cfg_val_freq c = 0")
    case False
    with run tb vf have same: "w' = w1" "m' = m"
      by (auto simp: train_epoch_def split: if_splits)
    let ?evs = "TrainingEpoch e # evs"
    have "policy_run ?lt ?lo M ?evs
            = Some (M\<lparr>cur_params := params w', cur_opt := opt_state w', cur_epoch := e,
                      best := m', stage := Idle\<rparr>)"
      if "stage M = Idle" "cur_params M = params w" "cur_opt M = opt_state w" "best M = m"
      for M
      using that pol [of "M\<lparr>cur_epoch := e\<rparr>" ?lt ?lo] same
      by (simp add: policy_step_def monitor_idle_eq)
    moreover have "trace w' = trace w @ ?evs" using tr same by simp
    moreover have "map mark_of ?evs = expected_course c (length trl) (length vl) [e]"
      using mk False by simp
    moreover have "epochs_of ?evs = [e]" using ep by simp
    moreover have "length (filter is_training_step ?evs) = 3 * length trl" using cnt by simp
    ultimately show ?thesis using flags same mode by blast
  next
    case True
    define g where "g = records_graph w1"
    define w2 where "w2 = emit (Validation e) (w1\<lparr>training := False\<rparr>)"
    from run tb vf True obtain v w3 where
      v: "val c L vl w2 = Inr (v, w3)"
      by (auto simp: train_epoch_def w2_def split: if_splits sum.splits)
    define w4 where "w4 = emit (ValidationLoss v) (w3\<lparr>training := True\<rparr>)"
    define d where "d = (if float_less L v m then SaveValModel (params w4) e (opt_state w4) v
                         else SkippedSaving)"
    from run tb vf True v have res: "w' = emit d w4"
      "m' = (if float_less L v m then v else m)"
      by (auto simp: train_epoch_def w2_def w4_def d_def Let_def split: if_splits)
    from v have w3: "trace w3 = trace w2 @ ValStart (length vl)
                                  # replicate (length vl) (ModelCall False g)"
      "params w3 = params w1" "opt_state w3 = opt_state w1"
      "grad_enabled w3 = grad_enabled w1" "requires_grad w3 = requires_grad w1"
      "v = mean_loss L (params w1) False vl"
      by (auto simp: val_eq w2_def g_def records_graph_def split: if_splits)
    let ?vevs = "replicate (length vl) (ModelCall False g) @ [ValidationLoss v, d]"
    let ?evs = "TrainingEpoch e # evs @ [Validation e, ValStart (length vl)] @ ?vevs"
    have t: "trace w' = trace w @ ?evs"
      using res w3 tr by (simp add: w4_def w2_def)
    have p: "params w' = params w1" "opt_state w' = opt_state w1"
      using res w3 by (simp_all add: w4_def)
    have "policy_run ?lt ?lo M ?evs
            = Some (M\<lparr>cur_params := params w', cur_opt := opt_state w', cur_epoch := e,
                      best := m', stage := Idle\<rparr>)"
      if M: "stage M = Idle" "cur_params M = params w" "cur_opt M = opt_state w" "best M = m"
      for M
    proof -
      let ?M1 = "M\<lparr>cur_epoch := e, cur_params := params w1, cur_opt := opt_state w1\<rparr>"
      have a: "policy_run ?lt ?lo M (TrainingEpoch e # evs) = Some ?M1"
        using M pol [of "M\<lparr>cur_epoch := e\<rparr>" ?lt ?lo] by (simp add: policy_step_def)
      have b: "policy_run ?lt ?lo ?M1 [Validation e, ValStart (length vl)]
                 = Some (?M1\<lparr>stage := Validating (length vl)\<rparr>)"
        using M by (simp add: policy_step_def)
      have c: "policy_run ?lt ?lo (?M1\<lparr>stage := Validating (length vl)\<rparr>) ?vevs
                 = policy_run ?lt ?lo (?M1\<lparr>stage := Validating 0\<rparr>) [ValidationLoss v, d]"
        using policy_validation_forwards
                [of "?M1\<lparr>stage := Validating (length vl)\<rparr>" 0 "length vl" ?lt ?lo g
                    "[ValidationLoss v, d]"]
        by simp
      have d: "policy_run ?lt ?lo (?M1\<lparr>stage := Validating 0\<rparr>) [ValidationLoss v, d]
                 = Some (M\<lparr>cur_params := params w', cur_opt := opt_state w', cur_epoch := e,
                           best := m', stage := Idle\<rparr>)"
        using M res p w3 by (cases M) (simp add: policy_step_def d_def w4_def)
      have "policy_run ?lt ?lo M ?evs
              = policy_run ?lt ?lo M ((TrainingEpoch e # evs)
                  @ [Validation e, ValStart (length vl)] @ ?vevs)"
        by simp
      also have "\<dots> = Some (M\<lparr>cur_params := params w', cur_opt := opt_state w',
                              cur_epoch := e, best := m', stage := Idle\<rparr>)"
        unfolding policy_run_append [of _ _ _ "TrainingEpoch e # evs"] a option.case
          policy_run_append [of _ _ _ "[Validation e, ValStart (length vl)]"] b c d ..
      finally show ?thesis .
    qed
    moreover have "map mark_of ?evs = expected_course c (length trl) (length vl) [e]"
      using mk True by (simp add: d_def validation_marks_def)
    moreover have "epochs_of ?evs = [e]" using ep by (simp add: d_def)
    moreover have "length (filter is_training_step ?evs) = 3 * length trl"
      using cnt by (simp add: d_def)
    moreover have "training w'" "grad_enabled w' = grad_enabled w"
      "requires_grad w' = requires_grad w"
      using res w3 flags by (simp_all add: w4_def)
    ultimately show ?thesis using t by blast
  qed
qed


lemma train_epoch_ok:
  assumes "cfg_print_freq c \<noteq> 0" and "cfg_val_freq c \<noteq> 0" and "trl \<noteq> []" and "vl \<noteq> []"
    and "records_graph w"
  shows "\<exists>w' m'. train_epoch c L trl vl e (w, m) = Inr (w', m')"
proof -
  have "records_graph (emit (TrainingEpoch e) w)" using assms(5) by simp
  from train_batches_ok [OF assms(1) this, of L 0 trl "float_of_int L 0"] obtain w1 rl where
    "train_batches c L 0 trl (emit (TrainingEpoch e) w, float_of_int L 0) = Inr (w1, rl)"
    by force
  then show ?thesis using assms
    by (simp add: train_epoch_def val_eq Let_def)
qed

lemma train_epochs_Inr:
  assumes "train_epochs c L trl vl es (w, m) = Inr (w', m')" and "training w"
  shows "training w' \<and> grad_enabled w' = grad_enabled w \<and> requires_grad w' = requires_grad w
         \<and> (\<exists>evs. trace w' = trace w @ evs
               \<and> map mark_of evs = expected_course c (length trl) (length vl) es
               \<and> epochs_of evs = es
               \<and> length (filter is_training_step evs) = 3 * length trl * length es
               \<and> (\<forall>M. stage M = Idle \<longrightarrow> cur_params M = params w \<longrightarrow> cur_opt M = opt_state w
                     \<longrightarrow> best M = m
                     \<longrightarrow> (\<exists>e'. policy_run (float_less L) (\<lambda>p. mean_loss L p False vl) M evs
                           = Some (M\<lparr>cur_params := params w', cur_opt := opt_state w',
                                     cur_epoch := e', best := m', stage := Idle\<rparr>))))"
  using assms
proof (induction es arbitrary: w m)
  case Nil
  then have same: "w' = w" "m' = m" by simp_all
  have "\<exists>e'. policy_run (float_less L) (\<lambda>p. mean_loss L p False vl) M []
          = Some (M\<lparr>cur_params := params w', cur_opt := opt_state w', cur_epoch := e',
                    best := m', stage := Idle\<rparr>)"
    if "stage M = Idle" "cur_params M = params w" "cur_opt M = opt_state w" "best M = m"
    for M :: "('a, 'b, 'd) monitor"
    using that same by (intro exI [of _ "cur_epoch M"]) simp
  then show ?case using same Nil.prems(2) by (intro conjI exI [of _ "[]"]) auto
next
  case (Cons e es)
  let ?lt = "float_less L" and ?lo = "\<lambda>p. mean_loss L p False vl"
  from Cons.prems(1) obtain w1 m1 where
    first: "train_epoch c L trl vl e (w, m) = Inr (w1, m1)" and
    rest: "train_epochs c L trl vl es (w1, m1) = Inr (w', m')"
    by (auto split: sum.splits)
  from train_epoch_Inr [OF first Cons.prems(2)] obtain evs1 where
    f1: "training w1" "grad_enabled w1 = grad_enabled w" "requires_grad w1 = requires_grad w" and
    t1: "trace w1 = trace w @ evs1" and
    s1: "map mark_of evs1 = expected_course c (length trl) (length vl) [e]" and
    e1: "epochs_of evs1 = [e]" and
    c1: "length (filter is_training_step evs1) = 3 * length trl" and
    p1: "\<And>M. stage M = Idle \<Longrightarrow> cur_params M = params w \<Longrightarrow> cur_opt M = opt_state w
            \<Longrightarrow> best M = m
            \<Longrightarrow> policy_run ?lt ?lo M evs1
                  = Some (M\<lparr>cur_params := params w1, cur_opt := opt_state w1,
                            cur_epoch := e, best := m1, stage := Idle\<rparr>)"
    by auto
  from Cons.IH [OF rest f1(1)] obtain evs2 where
    f2: "training w'" "grad_enabled w' = grad_enabled w1" "requires_grad w' = requires_grad w1" and
    t2: "trace w' = trace w1 @ evs2" and
    s2: "map mark_of evs2 = expected_course c (length trl) (length vl) es" and
    e2: "epochs_of evs2 = es" and
    c2: "length (filter is_training_step evs2) = 3 * length trl * length es" and
    p2: "\<And>M. stage M = Idle \<Longrightarrow> cur_params M = params w1 \<Longrightarrow> cur_opt M = opt_state w1
            \<Longrightarrow> best M = m1
            \<Longrightarrow> \<exists>e'. policy_run ?lt ?lo M evs2
                  = Some (M\<lparr>cur_params := params w', cur_opt := opt_state w',
                            cur_epoch := e', best := m', stage := Idle\<rparr>)"
    by auto
  have pol: "\<exists>e'. policy_run ?lt ?lo M (evs1 @ evs2)
          = Some (M\<lparr>cur_params := params w', cur_opt := opt_state w', cur_epoch := e',
                    best := m', stage := Idle\<rparr>)"
    if M: "stage M = Idle" "cur_params M = params w" "cur_opt M = opt_state w" "best M = m"
    for M
  proof -
    let ?M1 = "M\<lparr>cur_params := params w1, cur_opt := opt_state w1, cur_epoch := e,
                 best := m1, stage := Idle\<rparr>"
    from p2 [of ?M1] obtain e' where
      "policy_run ?lt ?lo ?M1 evs2
         = Some (?M1\<lparr>cur_params := params w', cur_opt := opt_state w',
                     cur_epoch := e', best := m', stage := Idle\<rparr>)"
      by auto
    with p1 [OF M] show ?thesis by (intro exI [of _ e']) (simp add: policy_run_append)
  qed
  have tr: "trace w' = trace w @ evs1 @ evs2" using t1 t2 by simp
  have sch: "map mark_of (evs1 @ evs2) = expected_course c (length trl) (length vl) (e # es)"
    using s1 s2 by simp
  have ep: "epochs_of (evs1 @ evs2) = e # es" using e1 e2 by simp
  have cnt: "length (filter is_training_step (evs1 @ evs2))
               = 3 * length trl * length (e # es)"
    using c1 c2 by simp
  have flags: "training w'" "grad_enabled w' = grad_enabled w"
    "requires_grad w' = requires_grad w"
    using f1 f2 by simp_all
  show ?case
    using flags tr sch ep cnt pol by (intro conjI exI [of _ "evs1 @ evs2"] allI impI)
qed

lemma train_epochs_ok:
  assumes "cfg_print_freq c \<noteq> 0" and "cfg_val_freq c \<noteq> 0" and "trl \<noteq> []" and "vl \<noteq> []"
    and "records_graph w" and "training w"
  shows "\<exists>w' m'. train_epochs c L trl vl es (w, m) = Inr (w', m')"
  using assms(5,6)
proof (induction es arbitrary: w m)
  case Nil
  show ?case by simp
next
  case (Cons e es)
  from train_epoch_ok [OF assms(1-4) Cons.prems(1)] obtain w1 m1 where
    first: "train_epoch c L trl vl e (w, m) = Inr (w1, m1)" by blast
  from train_epoch_Inr [OF first Cons.prems(2)] Cons.prems(1)
  have "records_graph w1" "training w1" by (simp_all add: records_graph_def)
  from Cons.IH [OF this] first show ?case by simp
qed

lemma py_range_empty: "b \<le> a \<Longrightarrow> py_range a b = []"
  by (simp add: py_range_def)

lemma length_py_range: "length (py_range a b) = nat (max 0 (b - a))"
  by (simp add: py_range_def)

lemma sorted_py_range: "sorted_wrt (<) (py_range a b)"
  by (simp add: py_range_def)

lemma train_Inr:
  assumes "train c L trl vl w r m = Inr w'"
  shows "\<exists>w1 m1. train_epochs c L trl vl (py_range r (cfg_n_epochs c)) (w\<lparr>training := True\<rparr>, m)
                     = Inr (w1, m1)
                 \<and> w' = emit (SaveEndModel (params w1) (opt_state w1)) w1"
  using assms by (auto simp: train_def split: sum.splits)

lemma demo_train_run:
  "train demo_config demo_lib demo_train_loader demo_val_loader demo_world 0 1000 =
     Inr \<lparr>params = 3, training = True, opt_state = 3, grads = 0,
          requires_grad = True, grad_enabled = True,
          trace =
           [TrainingEpoch 0, ModelCall True True, ZeroGrad, Backward,
            OptimizerStep 3 1, Validation 0, ValStart 2,
            ModelCall False True, ModelCall False True, ValidationLoss 2,
            SaveValModel 3 0 1 2, TrainingEpoch 1, ModelCall True True,
            ZeroGrad, Backward, OptimizerStep 3 2, TrainingEpoch 2,
            ModelCall True True, ZeroGrad, Backward, OptimizerStep 3 3,
            Validation 2, ValStart 2, ModelCall False True,
            ModelCall False True, ValidationLoss 2, SkippedSaving,
            SaveEndModel 3 3]\<rparr>"
  by (simp add: train_def py_range_def upto.simps train_epoch_def train_step_def val_def
        demo_config_def demo_lib_def demo_train_loader_def demo_val_loader_def demo_world_def
        emit_def records_graph_def Let_def)

text \<open>
  The checkpoint policy on the events of that run: the first validation loss, 2, is less
  than 1000 and is saved; the second, 2 again, is not less than 2 and is not.
\<close>

lemma demo_policy_run:
  "policy_run (float_less demo_lib) (\<lambda>p. mean_loss demo_lib p False demo_val_loader)
     \<lparr>cur_params = params demo_world, cur_opt = opt_state demo_world, cur_epoch = 0,
      best = 1000, stage = Idle\<rparr>
     [TrainingEpoch 0, ModelCall True True, ZeroGrad, Backward,
      OptimizerStep 3 1, Validation 0, ValStart 2,
      ModelCall False True, ModelCall False True, ValidationLoss 2,
      SaveValModel 3 0 1 2, TrainingEpoch 1, ModelCall True True,
      ZeroGrad, Backward, OptimizerStep 3 2, TrainingEpoch 2,
      ModelCall True True, ZeroGrad, Backward, OptimizerStep 3 3,
      Validation 2, ValStart 2, ModelCall False True,
      ModelCall False True, ValidationLoss 2, SkippedSaving]
   = Some \<lparr>cur_params = 3, cur_opt = 3, cur_epoch = 2, best = 2, stage = Idle\<rparr>"
  by (simp add: policy_step_def mean_loss_def float_sum_def batch_loss_def demo_lib_def
        demo_world_def demo_val_loader_def)

lemma demo_expected_course:
  "expected_course demo_config (length demo_train_loader) (length demo_val_loader)
       (py_range 0 (cfg_n_epochs demo_config)) @ [FinalSave]
     = [EpochStart 0, Forward True, GradZero, GradBackward, Stepped,
        ValidationAt 0, ValBegin 2, Forward False, Forward False, LossLogged, Decision,
        EpochStart 1, Forward True, GradZero, GradBackward, Stepped,
        EpochStart 2, Forward True, GradZero, GradBackward, Stepped,
        ValidationAt 2, ValBegin 2, Forward False, Forward False, LossLogged, Decision,
        FinalSave]"
  by (simp add: demo_config_def demo_val_loader_def demo_train_loader_def py_range_def
        upto.simps training_marks_def validation_marks_def numeral_2_eq_2)

lemma demo_val_run:
  "val demo_config demo_lib demo_val_loader demo_world
     = Inr (5, demo_world\<lparr>training := True,
                            trace := [ValStart 2, ModelCall False True, ModelCall False True]\<rparr>)"
  by (simp add: val_eq mean_loss_def float_sum_def batch_loss_def demo_config_def demo_lib_def
        demo_val_loader_def demo_world_def records_graph_def)


lemma demo_test_run:
  "test demo_lib (demo_world\<lparr>grad_enabled := False\<rparr>) 0
     = Inr (demo_world\<lparr>grad_enabled := False, training := True,
                         trace := [ModelCall False False]\<rparr>)"
  by (simp add: test_def demo_lib_def demo_world_def records_graph_def squeeze_def
        permute_1_2_0_def emit_def Let_def)

lemma parse_tokens_Cons_Inr:
  assumes "parse_tokens (tok # rest) ns lo = Inr args"
  shows "parse_tokens rest ns True = Inr args
         \<or> parse_tokens rest (ns\<lparr>load := True\<rparr>) lo = Inr args
         \<or> (\<exists>v. parse_tokens rest (ns\<lparr>phase := v\<rparr>) lo = Inr args)
         \<or> (\<exists>v rest'. rest = v # rest' \<and> parse_tokens rest' (ns\<lparr>phase := v\<rparr>) lo = Inr args)"
proof -
  note eq = assms [unfolded parse_tokens.simps(2)]
  note parse_tokens.simps [simp del]
  show ?thesis
  proof (cases "tok = ''--'' \<or> take 2 tok = ''-h'' \<or> abbreviates (option_name tok) ''--help''")
    case True
    with eq show ?thesis by (auto split: if_splits)
  next
    case nohelp: False
    show ?thesis
    proof (cases "abbreviates (option_name tok) ''--load''")
      case True
      with eq nohelp show ?thesis by (simp split: if_splits)
    next
      case noload: False
      show ?thesis
      proof (cases "abbreviates (option_name tok) ''--phase''")
        case True
        with eq nohelp noload show ?thesis
          by (auto split: if_splits option.splits list.splits)
      next
        case False
        with eq nohelp noload show ?thesis by simp
      qed
    qed
  qed
qed

lemma parse_tokens_load:
  "load ns \<Longrightarrow> parse_tokens argv ns lo = Inr args \<Longrightarrow> load args"
proof (induction "length argv" arbitrary: argv ns lo rule: less_induct)
  case less
  show ?case
  proof (cases argv)
    case Nil
    with less.prems show ?thesis by (simp split: if_splits)
  next
    case (Cons tok rest)
    from less.prems(2) [unfolded Cons] have
      "parse_tokens rest ns True = Inr args
         \<or> parse_tokens rest (ns\<lparr>load := True\<rparr>) lo = Inr args
         \<or> (\<exists>v. parse_tokens rest (ns\<lparr>phase := v\<rparr>) lo = Inr args)
         \<or> (\<exists>v rest'. rest = v # rest' \<and> parse_tokens rest' (ns\<lparr>phase := v\<rparr>) lo = Inr args)"
      by (rule parse_tokens_Cons_Inr)
    then consider "parse_tokens rest ns True = Inr args"
      | "parse_tokens rest (ns\<lparr>load := True\<rparr>) lo = Inr args"
      | v where "parse_tokens rest (ns\<lparr>phase := v\<rparr>) lo = Inr args"
      | v rest' where "rest = v # rest'" "parse_tokens rest' (ns\<lparr>phase := v\<rparr>) lo = Inr args"
      by blast
    then show ?thesis
    proof cases
      case 1
      from less.hyps [of rest ns True] 1 Cons less.prems(1) show ?thesis by simp
    next
      case 2
      from less.hyps [of rest "ns\<lparr>load := True\<rparr>" lo] 2 Cons show ?thesis by simp
    next
      case 3
      from less.hyps [of rest "ns\<lparr>phase := v\<rparr>" lo] 3 Cons less.prems(1) show ?thesis by simp
    next
      case 4
      from less.hyps [of rest' "ns\<lparr>phase := v\<rparr>" lo] 4 Cons less.prems(1) show ?thesis by simp
    qed
  qed
qed

lemma main_with_every_flag:
  "main [''--phase'', ''train''] c L trl vl tsl None w = Inl FileNotFoundError"
  "main [] c L trl vl tsl None w = Inl FileNotFoundError"
  "main [''--load''] c L trl vl tsl None w = Inl FileNotFoundError"
  by (simp_all add: main_def parse_args_def restore_def abbreviates_def option_name_def
        explicit_arg_def option_like_def names_option_def negative_number_def chomp_def
        is_digit_def)

text \<open>
  Some command lines, as \<open>argparse\<close> treats them.
\<close>

lemma parse_args_examples:
  "parse_args [''--phase'', ''-1''] = Inr \<lparr>phase = ''-1'', load = True\<rparr>"
  "parse_args [''--ph=test'', ''--lo''] = Inr \<lparr>phase = ''test'', load = True\<rparr>"
  "parse_args [''--''] = Inl SystemExit"
  "parse_args [''-hh''] = Inl SystemExit"
  "parse_args [''--phase'', ''--load''] = Inl SystemExit"
  "parse_args [''train''] = Inl SystemExit"
  by (simp_all add: parse_args_def abbreviates_def option_name_def
        explicit_arg_def option_like_def names_option_def negative_number_def chomp_def
        is_digit_def)

text \<open>
  The checkpoint policy is not satisfied by every run: it rejects a validation pass with
  a smaller loss that is not followed by a save, a save after a loss that is not smaller,
  a save or a logged loss without a validation pass, a save with the wrong epoch, any
  other event in place of the decision, a validation pass whose loss is not logged, a
  logged loss that is not the loss of the pass, and a pass with fewer forward passes
  than announced; and a run that stops before the decision is left pending.
\<close>

lemma policy_rejects:
  fixes M :: "(real, nat, real) monitor"
  assumes "M = \<lparr>cur_params = 3, cur_opt = 1, cur_epoch = 0, best = 1000, stage = Idle\<rparr>"
  shows "policy_run (<) (\<lambda>p. 2) M [ValStart 1, ModelCall False True, ValidationLoss 2, SkippedSaving]
           = None"
    and "policy_run (<) (\<lambda>p. 1000) M
           [ValStart 1, ModelCall False True, ValidationLoss 1000, SaveValModel 3 0 1 1000] = None"
    and "policy_run (<) (\<lambda>p. 2) M [SaveValModel 3 0 1 2] = None"
    and "policy_run (<) (\<lambda>p. 2) M [ValidationLoss 2, SaveValModel 3 0 1 2] = None"
    and "policy_run (<) (\<lambda>p. 2) M
           [ValStart 1, ModelCall False True, ValidationLoss 2, SaveValModel 3 1 1 2] = None"
    and "policy_run (<) (\<lambda>p. 2) M
           [ValStart 1, ModelCall False True, ValidationLoss 2, TrainingEpoch 1] = None"
    and "policy_run (<) (\<lambda>p. 2) M [ValStart 1, ModelCall False True, TrainingEpoch 1] = None"
    and "policy_run (<) (\<lambda>p. 2) M [ValStart 1, ModelCall False True, ValidationLoss 5,
           SaveValModel 3 0 1 5] = None"
    and "policy_run (<) (\<lambda>p. 2) M [ValStart 2, ModelCall False True, ValidationLoss 2,
           SaveValModel 3 0 1 2] = None"
    and "policy_run (<) (\<lambda>p. 2) M [ValStart 1, ModelCall False True, ValidationLoss 2]
           = Some (M\<lparr>stage := Pending 2\<rparr>)"
    and "policy_run (<) (\<lambda>p. 2) M
           [ValStart 1, ModelCall False True, ValidationLoss 2, SaveValModel 3 0 1 2,
            ValStart 1, ModelCall False True, ValidationLoss 2, SkippedSaving]
           = Some (M\<lparr>best := 2\<rparr>)"
  by (simp_all add: assms policy_step_def)

text \<open>
  The runs that raise: an epoch with \<open>cfg.val_freq = 0\<close>, with an empty training loader,
  or with \<open>cfg.print_freq = 0\<close>; and \<open>test\<close> whenever autograd records the forward pass
  (under the library's default grad mode, with parameters that require gradients),
  because \<open>numpy()\<close> refuses the prediction.
\<close>

lemma train_epoch_raises:
  "cfg_val_freq c = 0 \<Longrightarrow> \<exists>e. train_epoch c L trl vl epoch s = Inl e"
  "trl = [] \<Longrightarrow> train_epoch c L trl vl epoch s = Inl ZeroDivisionError"
  "trl \<noteq> [] \<Longrightarrow> cfg_print_freq c = 0 \<Longrightarrow> train_epoch c L trl vl epoch s = Inl ZeroDivisionError"
  by (cases s; cases trl; auto simp: train_epoch_def split: sum.splits)+

lemma test_raises_when_recorded:
  "records_graph w \<Longrightarrow> test L w test_image = Inl RuntimeError"
  by (auto simp: test_def Let_def records_graph_def permute_1_2_0_def
        split: sum.splits list.splits)

section \<open>The claims about main.py\<close>



text \<open>
  Claim C7. Validation is periodic with period \<open>cfg.val_freq\<close>. Whenever \<open>train\<close> returns,
  the course of the events it added is the expected one: the epochs of
  \<open>range(resume_from_epoch, cfg.n_epochs)\<close> in order; in each, the start of the epoch and
  one training step for every batch of the training loader; after these steps and before
  the next epoch starts, one validation pass exactly when \<open>epoch mod cfg.val_freq = 0\<close>
  (one forward pass in evaluation mode for every batch of the validation loader, then
  the logged loss and the decision); after the last epoch the final save; and nothing
  else, so that no validation pass and no forward pass in evaluation mode happens at any
  other point. (When \<open>cfg.val_freq\<close> is 0 the test itself raises, and \<open>train\<close> does not
  return if it runs an epoch.)
\<close>

theorem validation_schedule:
  assumes "train c L trl vl w r m = Inr w'"
  shows "\<exists>evs. trace w' = trace w @ evs
           \<and> map mark_of evs
               = expected_course c (length trl) (length vl) (py_range r (cfg_n_epochs c))
                   @ [FinalSave]"
proof -
  from train_Inr [OF assms] obtain w1 m1 where
    loop: "train_epochs c L trl vl (py_range r (cfg_n_epochs c)) (w\<lparr>training := True\<rparr>, m)
             = Inr (w1, m1)" and
    w': "w' = emit (SaveEndModel (params w1) (opt_state w1)) w1"
    by blast
  from train_epochs_Inr [OF loop] obtain evs where
    "trace w1 = trace w @ evs"
    "map mark_of evs
       = expected_course c (length trl) (length vl) (py_range r (cfg_n_epochs c))"
    by auto
  with w' show ?thesis
    by (intro exI [of _ "evs @ [SaveEndModel (params w1) (opt_state w1)]"]) simp
qed

theorem validation_schedule_witness:
  "\<exists>w'. train demo_config demo_lib demo_train_loader demo_val_loader demo_world 0 1000 = Inr w'
     \<and> (\<exists>evs. trace w' = trace demo_world @ evs
           \<and> map mark_of evs
               = [EpochStart 0, Forward True, GradZero, GradBackward, Stepped,
                  ValidationAt 0, ValBegin 2, Forward False, Forward False, LossLogged, Decision,
                  EpochStart 1, Forward True, GradZero, GradBackward, Stepped,
                  EpochStart 2, Forward True, GradZero, GradBackward, Stepped,
                  ValidationAt 2, ValBegin 2, Forward False, Forward False, LossLogged, Decision,
                  FinalSave])"
proof -
  from demo_train_run obtain w' where
    run: "train demo_config demo_lib demo_train_loader demo_val_loader demo_world 0 1000 = Inr w'"
    by simp
  note course = validation_schedule [OF run, unfolded demo_expected_course]
  show ?thesis by (rule exI [of _ w']) (rule conjI [OF run course])
qed

text \<open>
  Claim C8. \<open>train\<close> always returns or raises (it is a total function: the epoch loop walks
  a finite range and each inner loop a finite loader). When \<open>resume_from_epoch\<close> is at
  least \<open>cfg.n_epochs\<close> it runs no training step and still saves the final model, whatever
  the configuration. When no step can raise (\<open>cfg.print_freq\<close> and \<open>cfg.val_freq\<close> are not
  0, neither loader is empty, and autograd records the forward passes) it returns after
  the epochs \<open>resume_from_epoch, ..., cfg.n_epochs - 1\<close> in increasing order,
  \<open>max(0, cfg.n_epochs - resume_from_epoch)\<close> of them, each with one training step (three
  events) for every batch of the training loader, and ends with the final save.
\<close>

theorem train_runs_every_epoch:
  "(cfg_n_epochs c \<le> r \<longrightarrow>
      train c L trl vl w r m
        = Inr (emit (SaveEndModel (params w) (opt_state w)) (w\<lparr>training := True\<rparr>)))
   \<and> (cfg_print_freq c \<noteq> 0 \<and> cfg_val_freq c \<noteq> 0 \<and> trl \<noteq> [] \<and> vl \<noteq> [] \<and> records_graph w \<longrightarrow>
        (\<exists>w' evs. train c L trl vl w r m = Inr w'
           \<and> trace w' = trace w @ evs @ [SaveEndModel (params w') (opt_state w')]
           \<and> epochs_of evs = py_range r (cfg_n_epochs c)
           \<and> length (epochs_of evs) = nat (max 0 (cfg_n_epochs c - r))
           \<and> sorted_wrt (<) (epochs_of evs)
           \<and> length (filter is_training_step evs)
               = 3 * length trl * nat (max 0 (cfg_n_epochs c - r))))"
proof (intro conjI impI)
  assume "cfg_n_epochs c \<le> r"
  then show "train c L trl vl w r m
               = Inr (emit (SaveEndModel (params w) (opt_state w)) (w\<lparr>training := True\<rparr>))"
    by (simp add: train_def py_range_empty)
next
  assume sane: "cfg_print_freq c \<noteq> 0 \<and> cfg_val_freq c \<noteq> 0 \<and> trl \<noteq> [] \<and> vl \<noteq> [] \<and> records_graph w"
  let ?w0 = "w\<lparr>training := True\<rparr>"
  have "records_graph ?w0" "training ?w0" using sane by (simp_all add: records_graph_def)
  with sane train_epochs_ok [of c trl vl ?w0 L "py_range r (cfg_n_epochs c)" m]
  obtain w1 m1 where
    loop: "train_epochs c L trl vl (py_range r (cfg_n_epochs c)) (?w0, m) = Inr (w1, m1)"
    by blast
  from train_epochs_Inr [OF loop] obtain evs where
    tr: "trace w1 = trace w @ evs" and
    ep: "epochs_of evs = py_range r (cfg_n_epochs c)" and
    cnt: "length (filter is_training_step evs)
            = 3 * length trl * length (py_range r (cfg_n_epochs c))"
    by auto
  let ?w' = "emit (SaveEndModel (params w1) (opt_state w1)) w1"
  have "train c L trl vl w r m = Inr ?w'" using loop by (simp add: train_def)
  moreover have "trace ?w' = trace w @ evs @ [SaveEndModel (params ?w') (opt_state ?w')]"
    using tr by simp
  ultimately show "\<exists>w' evs. train c L trl vl w r m = Inr w'
           \<and> trace w' = trace w @ evs @ [SaveEndModel (params w') (opt_state w')]
           \<and> epochs_of evs = py_range r (cfg_n_epochs c)
           \<and> length (epochs_of evs) = nat (max 0 (cfg_n_epochs c - r))
           \<and> sorted_wrt (<) (epochs_of evs)
           \<and> length (filter is_training_step evs)
               = 3 * length trl * nat (max 0 (cfg_n_epochs c - r))"
    using ep cnt
    by (intro exI [of _ ?w'] exI [of _ evs])
       (simp only: length_py_range sorted_py_range simp_thms)
qed

theorem train_runs_every_epoch_witness:
  "(cfg_n_epochs demo_config \<le> 5 \<and>
      train demo_config demo_lib demo_train_loader demo_val_loader demo_world 5 1000
        = Inr (emit (SaveEndModel (params demo_world) (opt_state demo_world))
                 (demo_world\<lparr>training := True\<rparr>)))
   \<and> (cfg_print_freq demo_config \<noteq> 0 \<and> cfg_val_freq demo_config \<noteq> 0
        \<and> demo_train_loader \<noteq> [] \<and> demo_val_loader \<noteq> [] \<and> records_graph demo_world)
   \<and> (\<exists>w' evs. train demo_config demo_lib demo_train_loader demo_val_loader demo_world 0 1000
                    = Inr w'
           \<and> trace w' = trace demo_world @ evs @ [SaveEndModel (params w') (opt_state w')]
           \<and> epochs_of evs = [0, 1, 2]
           \<and> length (epochs_of evs) = 3
           \<and> sorted_wrt (<) (epochs_of evs)
           \<and> length (filter is_training_step evs) = 9)"
proof -
  have small: "cfg_n_epochs demo_config \<le> 5" by (simp add: demo_config_def)
  have sane: "cfg_print_freq demo_config \<noteq> 0 \<and> cfg_val_freq demo_config \<noteq> 0
        \<and> demo_train_loader \<noteq> [] \<and> demo_val_loader \<noteq> [] \<and> records_graph demo_world"
    by (simp add: demo_config_def demo_train_loader_def demo_val_loader_def demo_world_def
          records_graph_def)
  have range: "py_range 0 (cfg_n_epochs demo_config) = [0, 1, 2]"
    by (simp add: demo_config_def py_range_def upto.simps)
  have count: "nat (max 0 (cfg_n_epochs demo_config - 0)) = 3"
    "3 * length demo_train_loader * 3 = 9"
    by (simp_all add: demo_config_def demo_train_loader_def)
  note inst = train_runs_every_epoch [of demo_config _ demo_lib demo_train_loader demo_val_loader
      demo_world]
  from inst [of 5 1000] small have first:
    "train demo_config demo_lib demo_train_loader demo_val_loader demo_world 5 1000
        = Inr (emit (SaveEndModel (params demo_world) (opt_state demo_world))
                 (demo_world\<lparr>training := True\<rparr>))"
    by blast
  from inst [of 0 1000] sane have
    "\<exists>w' evs. train demo_config demo_lib demo_train_loader demo_val_loader demo_world 0 1000
                    = Inr w'
           \<and> trace w' = trace demo_world @ evs @ [SaveEndModel (params w') (opt_state w')]
           \<and> epochs_of evs = py_range 0 (cfg_n_epochs demo_config)
           \<and> length (epochs_of evs) = nat (max 0 (cfg_n_epochs demo_config - 0))
           \<and> sorted_wrt (<) (epochs_of evs)
           \<and> length (filter is_training_step evs)
               = 3 * length demo_train_loader * nat (max 0 (cfg_n_epochs demo_config - 0))"
    by blast
  then have second: "\<exists>w' evs. train demo_config demo_lib demo_train_loader demo_val_loader demo_world 0 1000
                    = Inr w'
           \<and> trace w' = trace demo_world @ evs @ [SaveEndModel (params w') (opt_state w')]
           \<and> epochs_of evs = [0, 1, 2]
           \<and> length (epochs_of evs) = 3
           \<and> sorted_wrt (<) (epochs_of evs)
           \<and> length (filter is_training_step evs) = 9"
    unfolding range count .
  from small first sane second show ?thesis by blast
qed

text \<open>
  Claim C9. Each of \<open>train\<close>, \<open>val\<close> and \<open>test\<close>, when it returns, leaves the model in
  training mode, whatever mode it was entered in. (\<open>val\<close> and \<open>test\<close> set evaluation mode
  first and \<open>model.train()\<close> last; \<open>train\<close> sets training mode first and again after each
  validation pass. \<open>test\<close> returns only when autograd does not record the forward pass:
  \<open>test_raises_when_recorded\<close>.)
\<close>

theorem train_val_test_leave_training_mode:
  "(train c L trl vl w r m = Inr w1 \<longrightarrow> training w1)
   \<and> (val c L vl w = Inr (v, w2) \<longrightarrow> training w2)
   \<and> (test L w test_image = Inr w3 \<longrightarrow> training w3)"
proof (intro conjI impI)
  assume run: "train c L trl vl w r m = Inr w1"
  from train_Inr [OF run] obtain w0 m0 where
    loop: "train_epochs c L trl vl (py_range r (cfg_n_epochs c)) (w\<lparr>training := True\<rparr>, m)
             = Inr (w0, m0)" and
    w1: "w1 = emit (SaveEndModel (params w0) (opt_state w0)) w0"
    by blast
  from train_epochs_Inr [OF loop] w1 show "training w1" by simp
next
  assume "val c L vl w = Inr (v, w2)"
  then show "training w2" by (auto simp: val_eq split: if_splits)
next
  assume "test L w test_image = Inr w3"
  then show "training w3"
    by (auto simp: test_def Let_def split: sum.splits if_splits)
qed

theorem train_val_test_leave_training_mode_witness:
  "(\<exists>w1. train demo_config demo_lib demo_train_loader demo_val_loader demo_world 0 1000 = Inr w1
         \<and> training w1)
   \<and> (\<exists>v w2. val demo_config demo_lib demo_val_loader demo_world = Inr (v, w2) \<and> training w2)
   \<and> (\<exists>w3. test demo_lib (demo_world\<lparr>grad_enabled := False\<rparr>) 0 = Inr w3 \<and> training w3)"
proof -
  note t1 = train_val_test_leave_training_mode
    [of demo_config demo_lib demo_train_loader demo_val_loader demo_world 0 1000]
  note t2 = train_val_test_leave_training_mode
    [of demo_config demo_lib demo_train_loader demo_val_loader
        "demo_world\<lparr>grad_enabled := False\<rparr>" 0 1000 _ _ _ 0]
  from t1 demo_train_run have
    "\<exists>w1. train demo_config demo_lib demo_train_loader demo_val_loader demo_world 0 1000 = Inr w1
         \<and> training w1"
    by blast
  moreover from t1 demo_val_run have
    "\<exists>v w2. val demo_config demo_lib demo_val_loader demo_world = Inr (v, w2) \<and> training w2"
    by blast
  moreover from t2 demo_test_run have
    "\<exists>w3. test demo_lib (demo_world\<lparr>grad_enabled := False\<rparr>) 0 = Inr w3 \<and> training w3"
    by blast
  ultimately show ?thesis by blast
qed

text \<open>
  Claim C10. \<open>val\<close> divides the accumulated loss by the number of validation batches
  without a guard. On an empty loader it raises ZeroDivisionError. On a loader that is not
  empty it returns the mean of the losses of the batches as the claim spells it out, the
  sum of \<open>loss.item()\<close> over all batches divided by the number of batches, the losses
  being those of the model in evaluation mode with the parameters \<open>val\<close> was entered
  with. The sum and the division are those of Python floats (\<open>mean_loss\<close>: the losses
  added from left to right onto \<open>float(0)\<close>, the sum divided by the float of the count),
  so the result is the arithmetic mean as floats compute it, not the real number (with
  exact arithmetic it is the arithmetic mean: \<open>mean_loss_exact\<close>). This needs
  \<open>cfg.print_freq\<close> not to be 0, since line 85 takes \<open>steps % cfg.print_freq\<close> at every
  batch.
\<close>

theorem val_mean_or_zero_division:
  "val c L [] w = Inl ZeroDivisionError
   \<and> (vl \<noteq> [] \<and> cfg_print_freq c \<noteq> 0 \<longrightarrow>
        (\<exists>w'. val c L vl w = Inr (mean_loss L (params w) False vl, w')))"
  by (simp add: val_eq)

theorem val_mean_or_zero_division_witness:
  "val demo_config demo_lib [] demo_world = Inl ZeroDivisionError
   \<and> (demo_val_loader \<noteq> [] \<and> cfg_print_freq demo_config \<noteq> 0)
   \<and> (\<exists>w'. val demo_config demo_lib demo_val_loader demo_world = Inr (5, w'))"
proof -
  have ok: "demo_val_loader \<noteq> [] \<and> cfg_print_freq demo_config \<noteq> 0"
    by (simp add: demo_val_loader_def demo_config_def)
  have mean: "mean_loss demo_lib (params demo_world) False demo_val_loader = 5"
    by (simp add: mean_loss_def float_sum_def batch_loss_def demo_lib_def demo_world_def
          demo_val_loader_def)
  from val_mean_or_zero_division [of demo_config demo_lib demo_world demo_val_loader] ok
  show ?thesis unfolding mean by blast
qed

text \<open>
  Claim C2, as amended. A validation pass computes no gradients: whenever \<open>val\<close> returns,
  the parameters, the accumulated gradients, the optimizer state and the grad mode are
  what they were, and all \<open>val\<close> did was one forward pass per batch in evaluation mode
  (no \<open>Backward\<close>, \<open>ZeroGrad\<close> or \<open>OptimizerStep\<close>). But \<open>val\<close> does not disable
  autograd: each of those forward passes is recorded for differentiation exactly when
  grad mode is enabled and the parameters require gradients on entry.
\<close>

theorem val_forward_only:
  assumes "val c L vl w = Inr (v, w')"
  shows "params w' = params w \<and> grads w' = grads w \<and> opt_state w' = opt_state w
         \<and> grad_enabled w' = grad_enabled w \<and> requires_grad w' = requires_grad w
         \<and> trace w' = trace w @ ValStart (length vl)
                         # replicate (length vl) (ModelCall False (records_graph w))"
  using assms by (auto simp: val_eq split: if_splits)

theorem val_forward_only_witness:
  "\<exists>v w'. val demo_config demo_lib demo_val_loader demo_world = Inr (v, w')
     \<and> params w' = params demo_world \<and> grads w' = grads demo_world
     \<and> opt_state w' = opt_state demo_world
     \<and> grad_enabled w' = grad_enabled demo_world \<and> requires_grad w' = requires_grad demo_world
     \<and> trace w' = trace demo_world @ ValStart (length demo_val_loader)
                     # replicate (length demo_val_loader) (ModelCall False (records_graph demo_world))"
  using val_forward_only [OF demo_val_run] demo_val_run by blast

text \<open>
  Claim C2 as stated fails: in the run of \<open>train\<close> on the small model, under the
  library's default grad mode, a forward pass in evaluation mode (a forward pass of a
  validation pass) is recorded by autograd.
\<close>

theorem validation_pass_is_recorded:
  "\<exists>w'. train demo_config demo_lib demo_train_loader demo_val_loader demo_world 0 1000 = Inr w'
     \<and> ModelCall False True \<in> set (trace w')"
  by (simp add: demo_train_run)

text \<open>
  Claim C4 says that some command line skips the restoration of the checkpoint. The code
  has none: on every command line that parses, \<open>args.load\<close> is \<open>True\<close>, so \<open>main\<close> always
  reads the checkpoint file, and with the file missing it raises on every command line.
\<close>

theorem load_is_always_set:
  "(parse_args argv = Inr args \<longrightarrow> load args)
   \<and> (\<exists>e. main argv c L trl vl tsl None w = Inl e)"
proof
  show "parse_args argv = Inr args \<longrightarrow> load args"
    using parse_tokens_load [of "\<lparr>phase = ''train'', load = True\<rparr>" argv False args]
    by (simp add: parse_args_def)
next
  show "\<exists>e. main argv c L trl vl tsl None w = Inl e"
  proof (cases "parse_args argv")
    case (Inl e)
    then show ?thesis by (simp add: main_def)
  next
    case (Inr a)
    then have "load a"
      using parse_tokens_load [of "\<lparr>phase = ''train'', load = True\<rparr>" argv False a]
      by (simp add: parse_args_def)
    with Inr show ?thesis by (simp add: main_def restore_def)
  qed
qed

theorem load_is_always_set_witness:
  "parse_args [] = Inr \<lparr>phase = ''train'', load = True\<rparr>
   \<and> load \<lparr>phase = ''train'', load = True\<rparr>
   \<and> (\<exists>e. main [] demo_config demo_lib demo_train_loader demo_val_loader [] None demo_world = Inl e)"
proof -
  have p: "parse_args [] = Inr \<lparr>phase = ''train'', load = True\<rparr>"
    by (simp add: parse_args_def)
  from load_is_always_set [of "[]" "\<lparr>phase = ''train'', load = True\<rparr>" demo_config demo_lib
      demo_train_loader demo_val_loader "[]" demo_world] p
  show ?thesis by blast
qed

section \<open>Facts about the network\<close>

lemma shape_functional_simps [simp]:
  "F_conv2d shape_functional = conv2d_shape"
  "F_relu shape_functional = (\<lambda>x. x)"
  "F_max_pool2d shape_functional = max_pool2d_shape"
  "F_conv_transpose2d shape_functional = conv_transpose2d_shape"
  "F_interpolate shape_functional = interpolate_shape"
  "F_cat shape_functional = cat_shape"
  "F_size shape_functional = (\<lambda>x. x)"
  by (simp_all add: shape_functional_def)

lemma dcb_shape:
  "DoubleConvBlock_forward shape_functional (DoubleConvBlock_init i o' 3 sd nm) [N, C, H, W] s =
     (if C = i \<and> 0 < o' \<and> 5 \<le> H \<and> 5 \<le> W
      then Inr ([N, o', H - 4, W - 4], s\<lparr>applied := applied s @ double_conv_primitives\<rparr>)
      else Inl RuntimeError)"
  by (auto simp: DoubleConvBlock_forward_def DoubleConvBlock_init_def Conv2d_init_def
        Conv2d_forward_def ReLU_forward_def then_do_def apply_prim_def
        double_conv_primitives_def)

lemma enc_shape:
  "EncoderBlock_forward shape_functional mode (EncoderBlock_init i o' 0 sd nm) [N, C, H, W] s =
     (if C = i \<and> 0 < o' \<and> 6 \<le> H \<and> 6 \<le> W
      then Inr ([N, o', (H - 4) div 2, (W - 4) div 2],
                s\<lparr>applied := applied s @ double_conv_primitives @ [MaxPool]\<rparr>)
      else Inl RuntimeError)"
proof -
  have half: "(k - 6) div 2 + 1 = (k - 4) div 2" if "6 \<le> k" for k :: nat
    using that by presburger
  show ?thesis
    by (auto simp: EncoderBlock_forward_def EncoderBlock_init_def dcb_shape then_do_def
          MaxPool2d_forward_def apply_prim_def half)
qed

lemma dec_shape:
  "DecoderBlock_forward shape_functional (DecoderBlock_init i mid o' sd nm) [N, C, H, W] s =
     (if C = i \<and> 0 < mid \<and> 5 \<le> H \<and> 5 \<le> W
      then Inr ([N, o', 2 * (H - 4), 2 * (W - 4)],
                s\<lparr>applied := applied s @ double_conv_primitives @ [ConvTranspose]\<rparr>)
      else Inl RuntimeError)"
proof -
  have twice: "(k - 5) * 2 + 2 = 2 * (k - 4)" if "5 \<le> k" for k :: nat
    using that by presburger
  show ?thesis
    by (auto simp: DecoderBlock_forward_def DecoderBlock_init_def dcb_shape then_do_def
          ConvTranspose2d_forward_def apply_prim_def twice)
qed

lemma then_do_Inr:
  "then_do m f s = Inr r \<longleftrightarrow> (\<exists>a s1. m s = Inr (a, s1) \<and> f a s1 = Inr r)"
  by (auto simp: then_do_def split: sum.splits)

lemma interpolate_shape_eq:
  "interpolate shape_functional [N, C, H, W] [h, w] s =
     (if 0 < H \<and> 0 < W \<and> 0 < h \<and> 0 < w
      then Inr ([N, C, h, w], s\<lparr>applied := applied s @ [Interpolate]\<rparr>)
      else Inl RuntimeError)"
  by (simp add: interpolate_def apply_prim_def)

lemma cat_shape_eq:
  "cat shape_functional [[N1, C1, H1, W1], [N2, C2, H2, W2]] 1 s =
     (if N1 = N2 \<and> H1 = H2 \<and> W1 = W2
      then Inr ([N1, C1 + C2, H1, W1], s\<lparr>applied := applied s @ [Cat]\<rparr>)
      else Inl RuntimeError)"
  by (simp add: cat_def apply_prim_def)

lemma conv1x1_shape_eq:
  "Conv2d_forward shape_functional (Conv2d_init i o' 1 w) [N, C, H, W] s =
     (if C = i \<and> 0 < o' \<and> 1 \<le> H \<and> 1 \<le> W
      then Inr ([N, o', H, W], s\<lparr>applied := applied s @ [Conv]\<rparr>)
      else Inl RuntimeError)"
  by (auto simp: Conv2d_forward_def Conv2d_init_def apply_prim_def)

lemma then_do_enc_shape:
  "then_do (EncoderBlock_forward shape_functional mode (EncoderBlock_init i o' 0 sd nm) [N, C, H, W]) f s =
     (if C = i \<and> 0 < o' \<and> 6 \<le> H \<and> 6 \<le> W
      then f [N, o', (H - 4) div 2, (W - 4) div 2]
             (s\<lparr>applied := applied s @ double_conv_primitives @ [MaxPool]\<rparr>)
      else Inl RuntimeError)"
  by (simp add: then_do_def enc_shape)

lemma then_do_dec_shape:
  "then_do (DecoderBlock_forward shape_functional (DecoderBlock_init i mid o' sd nm) [N, C, H, W]) f s =
     (if C = i \<and> 0 < mid \<and> 5 \<le> H \<and> 5 \<le> W
      then f [N, o', 2 * (H - 4), 2 * (W - 4)]
             (s\<lparr>applied := applied s @ double_conv_primitives @ [ConvTranspose]\<rparr>)
      else Inl RuntimeError)"
  by (simp add: then_do_def dec_shape)

lemma then_do_dcb_shape:
  "then_do (DoubleConvBlock_forward shape_functional (DoubleConvBlock_init i o' 3 sd nm) [N, C, H, W]) f s =
     (if C = i \<and> 0 < o' \<and> 5 \<le> H \<and> 5 \<le> W
      then f [N, o', H - 4, W - 4] (s\<lparr>applied := applied s @ double_conv_primitives\<rparr>)
      else Inl RuntimeError)"
  by (simp add: then_do_def dcb_shape)

lemma then_do_interpolate_shape:
  "then_do (interpolate shape_functional [N, C, H, W] [h, w]) f s =
     (if 0 < H \<and> 0 < W \<and> 0 < h \<and> 0 < w
      then f [N, C, h, w] (s\<lparr>applied := applied s @ [Interpolate]\<rparr>)
      else Inl RuntimeError)"
  by (simp add: then_do_def interpolate_shape_eq)

lemma then_do_cat_shape:
  "then_do (cat shape_functional [[N1, C1, H1, W1], [N2, C2, H2, W2]] 1) f s =
     (if N1 = N2 \<and> H1 = H2 \<and> W1 = W2
      then f [N1, C1 + C2, H1, W1] (s\<lparr>applied := applied s @ [Cat]\<rparr>)
      else Inl RuntimeError)"
  by (simp add: then_do_def cat_shape_eq del: One_nat_def)

lemma then_do_conv1x1_shape:
  "then_do (Conv2d_forward shape_functional (Conv2d_init i o' 1 w) [N, C, H, W]) f s =
     (if C = i \<and> 0 < o' \<and> 1 \<le> H \<and> 1 \<le> W
      then f [N, o', H, W] (s\<lparr>applied := applied s @ [Conv]\<rparr>)
      else Inl RuntimeError)"
  by (simp add: then_do_def conv1x1_shape_eq del: One_nat_def)

lemmas then_do_shapes = then_do_enc_shape then_do_dec_shape then_do_dcb_shape
  then_do_interpolate_shape then_do_cat_shape then_do_conv1x1_shape interpolate_shape_eq

lemma case_sum_if:
  "(case (if c then X else Inl e) of Inl e' \<Rightarrow> True | Inr p \<Rightarrow> Q p)
     = (c \<longrightarrow> (case X of Inl e' \<Rightarrow> True | Inr p \<Rightarrow> Q p))"
  by simp

lemma drop_2_shape: "drop 2 [N, C, H, W] = [H, W]"
  by simp

lemma UNet_shape_Inr:
  "case UNet_forward shape_functional mode (UNet_init n sd) [N, 3, H, W] s of
     Inl e \<Rightarrow> True | Inr (y, s') \<Rightarrow> y = [N, n, H, W]"
  by (simp only: UNet_forward_def UNet_init_def UNet.select_convs then_do_shapes
        shape_functional_simps drop_2_shape case_sum_if sum.case prod.case simp_thms)

lemma pure_with_apply_prim: "pure_with [nm] (apply_prim nm r)"
  unfolding pure_with_def by (intro exI [of _ r] allI) (simp add: apply_prim_def)

lemma pure_with_return: "pure_with [] (\<lambda>s. Inr (x, s))"
  unfolding pure_with_def by (intro exI [of _ "Inr x"] allI) simp

lemma pure_with_then_do:
  assumes m: "pure_with ps m" and f: "\<And>a. pure_with qs (f a)"
  shows "pure_with (ps @ qs) (then_do m f)"
proof -
  from m obtain r where r: "\<And>s. m s = (case r of Inl e \<Rightarrow> Inl e
      | Inr y \<Rightarrow> Inr (y, s\<lparr>applied := applied s @ ps\<rparr>))"
    unfolding pure_with_def by blast
  show ?thesis
  proof (cases r)
    case (Inl e)
    with r show ?thesis
      unfolding pure_with_def by (intro exI [of _ "Inl e"] allI) (simp add: then_do_def)
  next
    case (Inr a)
    from f [of a] obtain r' where r': "\<And>s. f a s = (case r' of Inl e \<Rightarrow> Inl e
        | Inr y \<Rightarrow> Inr (y, s\<lparr>applied := applied s @ qs\<rparr>))"
      unfolding pure_with_def by blast
    from r Inr r' show ?thesis
      unfolding pure_with_def
      by (intro exI [of _ r'] allI) (simp add: then_do_def split: sum.splits)
  qed
qed

lemma pure_with_DoubleConvBlock:
  "pure_with double_conv_primitives (DoubleConvBlock_forward F m x)"
proof -
  have "pure_with ([Conv] @ [ReLU] @ [Conv] @ [ReLU]) (DoubleConvBlock_forward F m x)"
    unfolding DoubleConvBlock_forward_def Conv2d_forward_def ReLU_forward_def
    by (intro pure_with_then_do pure_with_apply_prim)
  then show ?thesis by (simp add: double_conv_primitives_def)
qed

lemma pure_with_EncoderBlock:
  assumes "dropout m = None"
  shows "pure_with (double_conv_primitives @ [MaxPool]) (EncoderBlock_forward F mode m x)"
proof -
  have "pure_with (double_conv_primitives @ [] @ [MaxPool]) (EncoderBlock_forward F mode m x)"
    unfolding EncoderBlock_forward_def MaxPool2d_forward_def assms option.case
    by (intro pure_with_then_do pure_with_DoubleConvBlock pure_with_return pure_with_apply_prim)
  then show ?thesis by simp
qed

lemma pure_with_DecoderBlock:
  "pure_with (double_conv_primitives @ [ConvTranspose]) (DecoderBlock_forward F m x)"
  unfolding DecoderBlock_forward_def ConvTranspose2d_forward_def
  by (intro pure_with_then_do pure_with_DoubleConvBlock pure_with_apply_prim)

lemma UNet_init_no_dropout:
  "dropout (input (UNet_init n sd)) = None" "dropout (enc1 (UNet_init n sd)) = None"
  "dropout (enc2 (UNet_init n sd)) = None" "dropout (enc3 (UNet_init n sd)) = None"
  by (simp_all add: UNet_init_def EncoderBlock_init_def)

lemma pure_with_UNet:
  "pure_with unet_primitives (UNet_forward F mode (UNet_init n sd) x)"
proof -
  let ?e = "double_conv_primitives @ [MaxPool]"
  let ?d = "double_conv_primitives @ [ConvTranspose]"
  have "pure_with (?e @ ?e @ ?e @ ?e @ ?d @ [Interpolate] @ [Cat] @ ?d @ [Interpolate] @ [Cat]
          @ ?d @ [Interpolate] @ [Cat] @ ?d @ [Interpolate] @ [Cat] @ double_conv_primitives
          @ [Conv] @ [Interpolate])
        (UNet_forward F mode (UNet_init n sd) x)"
    unfolding UNet_forward_def interpolate_def cat_def Conv2d_forward_def
    by (intro pure_with_then_do pure_with_EncoderBlock pure_with_DecoderBlock
          pure_with_DoubleConvBlock pure_with_apply_prim UNet_init_no_dropout)
  then show ?thesis by (simp add: unet_primitives_def numeral_eq_Suc)
qed

lemma UNet_forward_mode:
  "UNet_forward F mode (UNet_init n sd) = UNet_forward F mode2 (UNet_init n sd)"
  by (rule ext) (simp add: UNet_forward_def EncoderBlock_forward_def UNet_init_no_dropout)

lemma demo_forward:
  "UNet_forward shape_functional False (UNet_init 2 demo_sd) [1, 3, 188, 188] demo_state
     = Inr ([1, 2, 188, 188], demo_state\<lparr>applied := unet_primitives\<rparr>)"
  by code_simp

lemma UNet_forward_state:
  assumes "UNet_forward F mode (UNet_init n_classes sd) x s = Inr (y, s')"
  shows "s' = s\<lparr>applied := applied s @ unet_primitives\<rparr>"
proof -
  from pure_with_UNet [of F mode n_classes sd x] obtain r where
    r: "\<And>s. UNet_forward F mode (UNet_init n_classes sd) x s =
          (case r of Inl e \<Rightarrow> Inl e
           | Inr y \<Rightarrow> Inr (y, s\<lparr>applied := applied s @ unet_primitives\<rparr>))"
    unfolding pure_with_def by blast
  from assms r [of s] show ?thesis by (cases r) auto
qed

lemma UNet_forward_applied:
  assumes "UNet_forward F mode (UNet_init n_classes sd) x s = Inr (y, s')"
  shows "applied s' = applied s @ unet_primitives"
  using UNet_forward_state [OF assms] by simp

lemma Dropout_not_in_unet_primitives: "Dropout \<notin> set unet_primitives"
  by (simp add: unet_primitives_def double_conv_primitives_def numeral_eq_Suc)

lemma dropout_block_draws:
  "EncoderBlock_forward drawing_functional True (EncoderBlock_init 3 64 (1/2) demo_sd ''input'')
     [1, 3, 8, 8] demo_state
   = Inr ([1, 64, 2, 2], \<lparr>rng = 8, applied = [Conv, ReLU, Conv, ReLU, Dropout, MaxPool]\<rparr>)"
  by (simp add: EncoderBlock_forward_def EncoderBlock_init_def DoubleConvBlock_forward_def
        DoubleConvBlock_init_def Conv2d_init_def Conv2d_forward_def ReLU_forward_def
        Dropout_forward_def MaxPool2d_forward_def then_do_def apply_prim_def
        drawing_functional_def shape_functional_def demo_state_def)

lemma ex_Inr_if:
  "(\<exists>p. (if c then X else Inl e) = Inr p) = (c \<and> (\<exists>p. X = Inr p))"
  by auto

lemma ex_Inr_Inr: "(\<exists>p. (Inr q :: 'a + 'b) = Inr p) = True"
  by auto

lemma half188: "188 \<le> k \<Longrightarrow> 92 \<le> (k - 4) div 2" for k :: nat
  by arith

lemma half92: "92 \<le> k \<Longrightarrow> 44 \<le> (k - 4) div 2" for k :: nat
  by arith

lemma half44: "44 \<le> k \<Longrightarrow> 20 \<le> (k - 4) div 2" for k :: nat
  by arith

lemma half20: "20 \<le> k \<Longrightarrow> 8 \<le> (k - 4) div 2" for k :: nat
  by arith

lemma twice8: "8 \<le> k \<Longrightarrow> 8 \<le> 2 * (k - 4)" for k :: nat
  by arith

lemma extent_weaken:
  "8 \<le> k \<Longrightarrow> 6 \<le> k" "8 \<le> k \<Longrightarrow> 5 \<le> k" "8 \<le> k \<Longrightarrow> 0 < k"
  "8 \<le> k \<Longrightarrow> 1 \<le> k - 4" "8 \<le> k \<Longrightarrow> 0 < k - 4" for k :: nat
  by arith+

lemma extent_trans: "8 \<le> m \<Longrightarrow> m \<le> k \<Longrightarrow> 8 \<le> k" for k m :: nat
  by arith

lemma extent_facts:
  fixes x :: nat
  assumes "188 \<le> x"
  shows "6 \<le> x" "5 \<le> x" "0 < x"
    "6 \<le> (x - 4) div 2" "5 \<le> (x - 4) div 2" "0 < (x - 4) div 2"
    "6 \<le> ((x - 4) div 2 - 4) div 2" "5 \<le> ((x - 4) div 2 - 4) div 2" "0 < ((x - 4) div 2 - 4) div 2"
    "6 \<le> (((x - 4) div 2 - 4) div 2 - 4) div 2" "5 \<le> (((x - 4) div 2 - 4) div 2 - 4) div 2" "0 < (((x - 4) div 2 - 4) div 2 - 4) div 2"
    "6 \<le> ((((x - 4) div 2 - 4) div 2 - 4) div 2 - 4) div 2" "5 \<le> ((((x - 4) div 2 - 4) div 2 - 4) div 2 - 4) div 2" "0 < ((((x - 4) div 2 - 4) div 2 - 4) div 2 - 4) div 2"
    "6 \<le> 2 * (((((x - 4) div 2 - 4) div 2 - 4) div 2 - 4) div 2 - 4)" "5 \<le> 2 * (((((x - 4) div 2 - 4) div 2 - 4) div 2 - 4) div 2 - 4)" "0 < 2 * (((((x - 4) div 2 - 4) div 2 - 4) div 2 - 4) div 2 - 4)"
    "6 \<le> 2 * (2 * (((((x - 4) div 2 - 4) div 2 - 4) div 2 - 4) div 2 - 4) - 4)" "5 \<le> 2 * (2 * (((((x - 4) div 2 - 4) div 2 - 4) div 2 - 4) div 2 - 4) - 4)" "0 < 2 * (2 * (((((x - 4) div 2 - 4) div 2 - 4) div 2 - 4) div 2 - 4) - 4)"
    "6 \<le> 2 * (2 * (2 * (((((x - 4) div 2 - 4) div 2 - 4) div 2 - 4) div 2 - 4) - 4) - 4)" "5 \<le> 2 * (2 * (2 * (((((x - 4) div 2 - 4) div 2 - 4) div 2 - 4) div 2 - 4) - 4) - 4)" "0 < 2 * (2 * (2 * (((((x - 4) div 2 - 4) div 2 - 4) div 2 - 4) div 2 - 4) - 4) - 4)"
    "6 \<le> 2 * (2 * (2 * (2 * (((((x - 4) div 2 - 4) div 2 - 4) div 2 - 4) div 2 - 4) - 4) - 4) - 4)" "5 \<le> 2 * (2 * (2 * (2 * (((((x - 4) div 2 - 4) div 2 - 4) div 2 - 4) div 2 - 4) - 4) - 4) - 4)" "0 < 2 * (2 * (2 * (2 * (((((x - 4) div 2 - 4) div 2 - 4) div 2 - 4) div 2 - 4) - 4) - 4) - 4)"
    "1 \<le> 2 * (2 * (2 * (2 * (((((x - 4) div 2 - 4) div 2 - 4) div 2 - 4) div 2 - 4) - 4) - 4) - 4) - 4" "0 < 2 * (2 * (2 * (2 * (((((x - 4) div 2 - 4) div 2 - 4) div 2 - 4) div 2 - 4) - 4) - 4) - 4) - 4"
proof -
  have x: "188 \<le> x" by (rule assms)
  have x8: "8 \<le> x" by (rule extent_trans [OF _ x]) simp
  have h1: "92 \<le> (x - 4) div 2" by (rule half188 [OF x])
  have h18: "8 \<le> (x - 4) div 2" by (rule extent_trans [OF _ h1]) simp
  have h2: "44 \<le> ((x - 4) div 2 - 4) div 2" by (rule half92 [OF h1])
  have h28: "8 \<le> ((x - 4) div 2 - 4) div 2" by (rule extent_trans [OF _ h2]) simp
  have h3: "20 \<le> (((x - 4) div 2 - 4) div 2 - 4) div 2" by (rule half44 [OF h2])
  have h38: "8 \<le> (((x - 4) div 2 - 4) div 2 - 4) div 2" by (rule extent_trans [OF _ h3]) simp
  have h4: "8 \<le> ((((x - 4) div 2 - 4) div 2 - 4) div 2 - 4) div 2" by (rule half20 [OF h3])
  note h48 = h4
  have a: "8 \<le> 2 * (((((x - 4) div 2 - 4) div 2 - 4) div 2 - 4) div 2 - 4)" by (rule twice8 [OF h4])
  note a8 = a
  have b: "8 \<le> 2 * (2 * (((((x - 4) div 2 - 4) div 2 - 4) div 2 - 4) div 2 - 4) - 4)" by (rule twice8 [OF a])
  note b8 = b
  have c: "8 \<le> 2 * (2 * (2 * (((((x - 4) div 2 - 4) div 2 - 4) div 2 - 4) div 2 - 4) - 4) - 4)" by (rule twice8 [OF b])
  note c8 = c
  have d: "8 \<le> 2 * (2 * (2 * (2 * (((((x - 4) div 2 - 4) div 2 - 4) div 2 - 4) div 2 - 4) - 4) - 4) - 4)" by (rule twice8 [OF c])
  note d8 = d
  show "6 \<le> x" "5 \<le> x" "0 < x"
    by (rule extent_weaken [OF x8])+
  show "6 \<le> (x - 4) div 2" "5 \<le> (x - 4) div 2" "0 < (x - 4) div 2"
    by (rule extent_weaken [OF h18])+
  show "6 \<le> ((x - 4) div 2 - 4) div 2" "5 \<le> ((x - 4) div 2 - 4) div 2" "0 < ((x - 4) div 2 - 4) div 2"
    by (rule extent_weaken [OF h28])+
  show "6 \<le> (((x - 4) div 2 - 4) div 2 - 4) div 2" "5 \<le> (((x - 4) div 2 - 4) div 2 - 4) div 2" "0 < (((x - 4) div 2 - 4) div 2 - 4) div 2"
    by (rule extent_weaken [OF h38])+
  show "6 \<le> ((((x - 4) div 2 - 4) div 2 - 4) div 2 - 4) div 2" "5 \<le> ((((x - 4) div 2 - 4) div 2 - 4) div 2 - 4) div 2" "0 < ((((x - 4) div 2 - 4) div 2 - 4) div 2 - 4) div 2"
    by (rule extent_weaken [OF h48])+
  show "6 \<le> 2 * (((((x - 4) div 2 - 4) div 2 - 4) div 2 - 4) div 2 - 4)" "5 \<le> 2 * (((((x - 4) div 2 - 4) div 2 - 4) div 2 - 4) div 2 - 4)" "0 < 2 * (((((x - 4) div 2 - 4) div 2 - 4) div 2 - 4) div 2 - 4)"
    by (rule extent_weaken [OF a8])+
  show "6 \<le> 2 * (2 * (((((x - 4) div 2 - 4) div 2 - 4) div 2 - 4) div 2 - 4) - 4)" "5 \<le> 2 * (2 * (((((x - 4) div 2 - 4) div 2 - 4) div 2 - 4) div 2 - 4) - 4)" "0 < 2 * (2 * (((((x - 4) div 2 - 4) div 2 - 4) div 2 - 4) div 2 - 4) - 4)"
    by (rule extent_weaken [OF b8])+
  show "6 \<le> 2 * (2 * (2 * (((((x - 4) div 2 - 4) div 2 - 4) div 2 - 4) div 2 - 4) - 4) - 4)" "5 \<le> 2 * (2 * (2 * (((((x - 4) div 2 - 4) div 2 - 4) div 2 - 4) div 2 - 4) - 4) - 4)" "0 < 2 * (2 * (2 * (((((x - 4) div 2 - 4) div 2 - 4) div 2 - 4) div 2 - 4) - 4) - 4)"
    by (rule extent_weaken [OF c8])+
  show "6 \<le> 2 * (2 * (2 * (2 * (((((x - 4) div 2 - 4) div 2 - 4) div 2 - 4) div 2 - 4) - 4) - 4) - 4)" "5 \<le> 2 * (2 * (2 * (2 * (((((x - 4) div 2 - 4) div 2 - 4) div 2 - 4) div 2 - 4) - 4) - 4) - 4)" "0 < 2 * (2 * (2 * (2 * (((((x - 4) div 2 - 4) div 2 - 4) div 2 - 4) div 2 - 4) - 4) - 4) - 4)"
    by (rule extent_weaken [OF d8])+
  show "1 \<le> 2 * (2 * (2 * (2 * (((((x - 4) div 2 - 4) div 2 - 4) div 2 - 4) div 2 - 4) - 4) - 4) - 4) - 4" "0 < 2 * (2 * (2 * (2 * (((((x - 4) div 2 - 4) div 2 - 4) div 2 - 4) div 2 - 4) - 4) - 4) - 4) - 4"
    by (rule extent_weaken [OF d8])+
qed

lemma UNet_defined:
  assumes "188 \<le> H" and "188 \<le> W" and "0 < n"
  shows "\<exists>p. UNet_forward shape_functional mode (UNet_init n sd) [N, 3, H, W] s = Inr p"
  apply (simp only: UNet_forward_def UNet_init_def UNet.select_convs then_do_shapes
        shape_functional_simps drop_2_shape ex_Inr_if ex_Inr_Inr simp_thms)
  apply (simp only: extent_facts [OF assms(1)] extent_facts [OF assms(2)] assms(3) simp_thms)
  apply simp
  done

lemma back_d: "5 \<le> 2 * (k - 4) \<Longrightarrow> 7 \<le> k" for k :: nat
  by arith

lemma back_c: "7 \<le> 2 * (k - 4) \<Longrightarrow> 8 \<le> k" for k :: nat
  by arith

lemma back_b: "8 \<le> 2 * (k - 4) \<Longrightarrow> 8 \<le> k" for k :: nat
  by arith

lemma back_h4: "8 \<le> (k - 4) div 2 \<Longrightarrow> 20 \<le> k" for k :: nat
  by arith

lemma back_h3: "20 \<le> (k - 4) div 2 \<Longrightarrow> 44 \<le> k" for k :: nat
  by arith

lemma back_h2: "44 \<le> (k - 4) div 2 \<Longrightarrow> 92 \<le> k" for k :: nat
  by arith

lemma back_h1: "92 \<le> (k - 4) div 2 \<Longrightarrow> 188 \<le> k" for k :: nat
  by arith

lemma extent_back:
  fixes x :: nat
  assumes "5 \<le> 2 * (2 * (2 * (2 * (((((x - 4) div 2 - 4) div 2 - 4) div 2 - 4) div 2 - 4) - 4) - 4) - 4)"
  shows "188 \<le> x"
proof -
  have "7 \<le> 2 * (2 * (2 * (((((x - 4) div 2 - 4) div 2 - 4) div 2 - 4) div 2 - 4) - 4) - 4)" by (rule back_d [OF assms])
  then have "8 \<le> 2 * (2 * (((((x - 4) div 2 - 4) div 2 - 4) div 2 - 4) div 2 - 4) - 4)" by (rule back_c)
  then have "8 \<le> 2 * (((((x - 4) div 2 - 4) div 2 - 4) div 2 - 4) div 2 - 4)" by (rule back_b)
  then have "8 \<le> ((((x - 4) div 2 - 4) div 2 - 4) div 2 - 4) div 2" by (rule back_b)
  then have "20 \<le> (((x - 4) div 2 - 4) div 2 - 4) div 2" by (rule back_h4)
  then have "44 \<le> ((x - 4) div 2 - 4) div 2" by (rule back_h3)
  then have "92 \<le> (x - 4) div 2" by (rule back_h2)
  then show ?thesis by (rule back_h1)
qed

lemma UNet_defined_only_if:
  "\<exists>p. UNet_forward shape_functional mode (UNet_init n sd) [N, 3, H, W] s = Inr p
     \<Longrightarrow> 188 \<le> H \<and> 188 \<le> W \<and> 0 < n"
  apply (simp only: UNet_forward_def UNet_init_def UNet.select_convs then_do_shapes
        shape_functional_simps drop_2_shape ex_Inr_if ex_Inr_Inr simp_thms)
  apply (elim conjE)
  apply (intro conjI)
   apply (erule extent_back)
  apply (erule extent_back)
  done

lemma case_sum_if_error:
  "(case (if c then X else Inl e) of Inl e' \<Rightarrow> Q e' | Inr p \<Rightarrow> True)
     = ((c \<longrightarrow> (case X of Inl e' \<Rightarrow> Q e' | Inr p \<Rightarrow> True)) \<and> (\<not> c \<longrightarrow> Q e))"
  by simp

lemma UNet_shape_Inl:
  "case UNet_forward shape_functional mode (UNet_init n sd) [N, 3, H, W] s of
     Inl e \<Rightarrow> e = RuntimeError | Inr p \<Rightarrow> True"
  by (simp only: UNet_forward_def UNet_init_def UNet.select_convs then_do_shapes
        shape_functional_simps drop_2_shape case_sum_if_error sum.case simp_thms)

lemma UNet_shape:
  "UNet_forward shape_functional mode (UNet_init n sd) [N, 3, H, W] s =
     (if 188 \<le> H \<and> 188 \<le> W \<and> 0 < n
      then Inr ([N, n, H, W], s\<lparr>applied := applied s @ unet_primitives\<rparr>)
      else Inl RuntimeError)"
proof (cases "188 \<le> H \<and> 188 \<le> W \<and> 0 < n")
  case True
  then obtain y s' where
    run: "UNet_forward shape_functional mode (UNet_init n sd) [N, 3, H, W] s = Inr (y, s')"
    using UNet_defined [where H = H and W = W and n = n and mode = mode and sd = sd
        and N = N and s = s] by auto
  from UNet_shape_Inr [where mode = mode and n = n and sd = sd and N = N and H = H and W = W
      and s = s] run UNet_forward_state [OF run]
  have "y = [N, n, H, W]" "s' = s\<lparr>applied := applied s @ unet_primitives\<rparr>"
    by simp_all
  with run True show ?thesis by simp
next
  case False
  with UNet_defined_only_if [of mode n sd N H W s]
  have "\<nexists>p. UNet_forward shape_functional mode (UNet_init n sd) [N, 3, H, W] s = Inr p"
    by blast
  with UNet_shape_Inl [of mode n sd N H W s] False show ?thesis
    by (cases "UNet_forward shape_functional mode (UNet_init n sd) [N, 3, H, W] s") auto
qed

section \<open>The claims about models/UNet.py\<close>

text \<open>
  Claim C3. The network maps an image tensor to a tensor of class scores per pixel. On
  shapes: for an input of shape \<open>(N, 3, H, W)\<close>, whenever the forward pass returns, its
  result has shape \<open>(N, n_classes, H, W)\<close>, the spatial extent of the input and
  \<open>n_classes\<close> channels. The forward pass does return exactly when \<open>H\<close> and \<open>W\<close> are at
  least 188 and \<open>n_classes\<close> is at least 1: below 188 an unpadded convolution or a
  pooling meets an extent too small for it, and with no class the last convolution has
  no output channel.
\<close>

theorem UNet_forward_shape:
  "(UNet_forward shape_functional mode (UNet_init n_classes sd) [N, 3, H, W] s = Inr (y, s')
      \<longrightarrow> y = [N, n_classes, H, W])
   \<and> ((\<exists>p. UNet_forward shape_functional mode (UNet_init n_classes sd) [N, 3, H, W] s = Inr p)
        \<longleftrightarrow> 188 \<le> H \<and> 188 \<le> W \<and> 0 < n_classes)"
proof (intro conjI impI)
  assume "UNet_forward shape_functional mode (UNet_init n_classes sd) [N, 3, H, W] s = Inr (y, s')"
  then show "y = [N, n_classes, H, W]"
    using UNet_shape_Inr [where mode = mode and n = n_classes and sd = sd and N = N and H = H
        and W = W and s = s]
    by simp
next
  show "(\<exists>p. UNet_forward shape_functional mode (UNet_init n_classes sd) [N, 3, H, W] s = Inr p)
          \<longleftrightarrow> 188 \<le> H \<and> 188 \<le> W \<and> 0 < n_classes"
    by (simp add: UNet_shape)
qed

theorem UNet_forward_shape_witness:
  "UNet_forward shape_functional False (UNet_init 2 demo_sd) [1, 3, 188, 188] demo_state
     = Inr ([1, 2, 188, 188], demo_state\<lparr>applied := unet_primitives\<rparr>)
   \<and> [1, 2, 188, 188] = [1, 2, 188, 188 :: nat]
   \<and> (\<exists>p. UNet_forward shape_functional False (UNet_init 2 demo_sd) [1, 3, 188, 188] demo_state
             = Inr p)
   \<and> (188 :: nat) \<le> 188 \<and> (0 :: nat) < 2"
  using UNet_forward_shape [of False 2 demo_sd 1 188 188 demo_state "[1, 2, 188, 188]"
      "demo_state\<lparr>applied := unet_primitives\<rparr>"] demo_forward
  by simp

text \<open>
  Claim C5, as amended. The forward pass is a fixed composition of primitives, the same
  for every input on which it returns: convolution, ReLU, max pooling, transposed
  convolution, bilinear interpolation and concatenation, in the order of
  \<open>unet_primitives\<close>. Dropout is not among them: \<open>UNet.__init__\<close> builds every encoder
  block with the default \<open>drop_p = 0\<close>, so no block holds a dropout layer and none is
  applied.
\<close>

theorem UNet_forward_fixed_composition:
  assumes "UNet_forward F mode (UNet_init n_classes sd) x s = Inr (y, s')"
  shows "applied s' = applied s @ unet_primitives
         \<and> set unet_primitives = {Conv, ReLU, MaxPool, ConvTranspose, Interpolate, Cat}
         \<and> Dropout \<notin> set (drop (length (applied s)) (applied s'))
         \<and> dropout (input (UNet_init n_classes sd)) = None
         \<and> dropout (enc1 (UNet_init n_classes sd)) = None
         \<and> dropout (enc2 (UNet_init n_classes sd)) = None
         \<and> dropout (enc3 (UNet_init n_classes sd)) = None"
proof -
  from pure_with_UNet [of F mode n_classes sd x] obtain r where
    r: "\<And>s. UNet_forward F mode (UNet_init n_classes sd) x s =
          (case r of Inl e \<Rightarrow> Inl e
           | Inr y \<Rightarrow> Inr (y, s\<lparr>applied := applied s @ unet_primitives\<rparr>))"
    unfolding pure_with_def by blast
  from assms r [of s] have a: "applied s' = applied s @ unet_primitives"
    by (auto split: sum.splits)
  have b: "set unet_primitives = {Conv, ReLU, MaxPool, ConvTranspose, Interpolate, Cat}"
    by (auto simp: unet_primitives_def double_conv_primitives_def numeral_eq_Suc)
  from a b show ?thesis by (simp add: UNet_init_no_dropout)
qed

theorem UNet_forward_fixed_composition_witness:
  "\<exists>y s'. UNet_forward shape_functional False (UNet_init 2 demo_sd) [1, 3, 188, 188] demo_state
            = Inr (y, s')
     \<and> applied s' = applied demo_state @ unet_primitives
     \<and> set unet_primitives = {Conv, ReLU, MaxPool, ConvTranspose, Interpolate, Cat}
     \<and> Dropout \<notin> set (drop (length (applied demo_state)) (applied s'))"
  using UNet_forward_fixed_composition [OF demo_forward] demo_forward by blast

text \<open>
  Claim C5 as stated fails: no input, whatever the kernels, the mode and the weights,
  makes the forward pass of a network built by \<open>UNet.__init__\<close> apply dropout.
\<close>

theorem UNet_forward_applies_no_dropout:
  "\<not> (\<exists>F mode n_classes sd x s y s'.
        UNet_forward F mode (UNet_init n_classes sd) x s = Inr (y, s')
        \<and> Dropout \<in> set (drop (length (applied s)) (applied s')))"
  using Dropout_not_in_unet_primitives by (auto dest!: UNet_forward_applied)

text \<open>
  Claim C6. The network is a pure function. The forward pass only reads the network (its
  layers and weights are arguments and never results), and the one piece of state a layer
  of this kind could change, the random generator that dropout draws from, is left alone
  because no dropout layer is built: whatever state and mode a second evaluation on the
  same input starts in, it raises the same exception as the first or returns the same
  output, and all it changes is the log of applied primitives. (An encoder block built
  with a positive \<open>drop_p\<close> is not pure in training mode: \<open>dropout_block_draws\<close>.)
\<close>

theorem UNet_forward_is_pure:
  "UNet_forward F mode2 (UNet_init n_classes sd) x s2 =
     (case UNet_forward F mode (UNet_init n_classes sd) x s of
        Inl e \<Rightarrow> Inl e
      | Inr (y, s') \<Rightarrow> Inr (y, s2\<lparr>applied := applied s2 @ unet_primitives\<rparr>))"
proof -
  from pure_with_UNet [of F mode n_classes sd x] obtain r where
    r: "\<And>s. UNet_forward F mode (UNet_init n_classes sd) x s =
          (case r of Inl e \<Rightarrow> Inl e
           | Inr y \<Rightarrow> Inr (y, s\<lparr>applied := applied s @ unet_primitives\<rparr>))"
    unfolding pure_with_def by blast
  show ?thesis
    unfolding UNet_forward_mode [of F mode2 n_classes sd mode]
    by (simp add: r [of s] r [of s2] split: sum.splits)
qed

theorem UNet_forward_is_pure_witness:
  "UNet_forward shape_functional True (UNet_init 2 demo_sd) [1, 3, 188, 188]
       \<lparr>rng = 0, applied = []\<rparr>
     = Inr ([1, 2, 188, 188], \<lparr>rng = 0 :: nat, applied = unet_primitives\<rparr>)"
  using UNet_forward_is_pure [of shape_functional True 2 demo_sd "[1, 3, 188, 188]"
      "\<lparr>rng = 0, applied = []\<rparr>" False demo_state, unfolded demo_forward]
  by simp

end
